theory Spec2Isabelle
  imports Main "HOL-Library.Word"
begin

section \<open>The signature verification effect of the signing page\<close>

text \<open>
  The development embeds the function \<open>verify\<close> of
  \<^verbatim>\<open>frontend/src/app/sign/page.tsx\<close> (the "Unified Verification Effect").
  The function reads the signing result, the selected chain and wallet, the sign type,
  the message, the typed data and the hex flag, and reports through
  \<^verbatim>\<open>setVerificationResult\<close>.

  Conventions of the embedding:
  \<^item> a JavaScript string is a \<^typ>\<open>string\<close>; the texts the function inspects
    (signatures, keys, addresses) are ASCII, and the one non-ASCII literal of the
    source, the dash of the address mismatch text, is written as its UTF-8 bytes;
  \<^item> an optional text field that the function only tests for truthiness is a
    \<^typ>\<open>string option\<close>, \<open>None\<close> for \<^verbatim>\<open>undefined\<close> and for \<^verbatim>\<open>null\<close>; the
    signature and the recovery id, where \<^verbatim>\<open>null\<close> acts differently, have a value of
    their own for it;
  \<^item> a call that may throw returns \<open>string + 'a\<close>: \<open>Inl m\<close> is a thrown
    \<^verbatim>\<open>Error\<close> with message \<open>m\<close>;
  \<^item> a recovery id \<^verbatim>\<open>v\<close> that is a number is an \<^typ>\<open>int\<close>;
  \<^item> the calls of \<^verbatim>\<open>setVerificationResult\<close> are returned as a list, in order;
  \<^item> the functions of the imported packages (ethers, tweetnacl, bs58,
    bitcoinjs-message, near-api-js, polkadot util-crypto, cosmjs, web3.js, Buffer,
    TextEncoder, String.prototype.toLowerCase) are not part of the repository: they
    are the fields of a record \<open>Lib\<close> that every definition takes as a parameter, and
    so is the message of the \<^verbatim>\<open>TypeError\<close> of the runtime for a property read on
    \<^verbatim>\<open>null\<close>.
\<close>

type_synonym bytes = "8 word list"

datatype ChainType = Evm | Btc | Sol | Cosmos | Near | Dot

datatype SignType = Message | TypedData | Transaction | DelegateAction

text \<open>A field that holds a number, or \<^verbatim>\<open>undefined\<close>, or \<^verbatim>\<open>null\<close>.\<close>

datatype JsNumber = NumUndefined | NumNull | Num int

text \<open>The nested form of \<^verbatim>\<open>SignResult.signature\<close>.\<close>

record SigObject =
  obj_signature :: "string option"
  obj_r :: "string option"
  obj_s :: "string option"
  obj_v :: JsNumber

text \<open>
  The field \<^verbatim>\<open>signature\<close> of the signing result as it arrives from the API:
  absent, \<^verbatim>\<open>null\<close>, a string or an object.
\<close>

datatype SigField = SigUndefined | SigNull | SigString string | SigObj SigObject

text \<open>
  The signing result: the fields of \<^verbatim>\<open>SignResult\<close> together with
  \<^verbatim>\<open>signedTransaction\<close> of the \<^verbatim>\<open>result\<close> state (the same object).
\<close>

record SignResult =
  res_signature :: SigField
  res_r :: "string option"
  res_s :: "string option"
  res_v :: JsNumber
  res_signedTransaction :: "string option"

record Wallet =
  wallet_address :: string
  wallet_publicKey :: "string option"

record VerifyInput =
  in_result :: SignResult
  in_chain :: ChainType
  in_wallet :: Wallet
  in_signType :: SignType
  in_message :: string
  in_typedData :: string
  in_encodedByHex :: bool

datatype Status = Pending | Verified | Failed

record VerificationResult =
  status :: Status
  explanation :: "string option"

text \<open>
  The variable \<^verbatim>\<open>signature\<close> of the function:
  \<^verbatim>\<open>string | ethers.Signature | undefined\<close>.
\<close>

datatype 'sg SigVar = SigUndef | SigText string | SigEthers 'sg

text \<open>The message argument of \<^verbatim>\<open>bitcoinMessage.verify\<close>: a Buffer or a string.\<close>

datatype BtcMsg = MsgBuffer bytes | MsgString string

text \<open>
  The imported functions. \<open>'sg\<close> is \<^verbatim>\<open>ethers.Signature\<close>, \<open>'pk\<close> is the
  \<^verbatim>\<open>PublicKey\<close> of near-api-js. The two constructors of \<^verbatim>\<open>web3.PublicKey\<close>
  return the bytes that \<^verbatim>\<open>toBytes()\<close> gives on the constructed key;
  \<open>verifyTypedData\<close> stands for \<^verbatim>\<open>JSON.parse\<close> of its first argument followed
  by \<^verbatim>\<open>ethers.verifyTypedData\<close> on the parsed domain, types and message.
\<close>

record ('sg, 'pk) Lib =
  Signature_from :: "string \<Rightarrow> string \<Rightarrow> int \<Rightarrow> string + 'sg"
  verifyMessage :: "string \<Rightarrow> 'sg SigVar \<Rightarrow> string + string"
  verifyTypedData :: "string \<Rightarrow> 'sg SigVar \<Rightarrow> string + string"
  getBytes :: "string \<Rightarrow> string + bytes"
  sha256 :: "bytes \<Rightarrow> string"
  toLowerCase :: "string \<Rightarrow> string"
  TextEncoder_encode :: "string \<Rightarrow> bytes"
  Buffer_from_hex :: "string \<Rightarrow> bytes"
  web3_PublicKey_of_buffer :: "bytes \<Rightarrow> string + bytes"
  web3_PublicKey_of_string :: "string \<Rightarrow> string + bytes"
  bs58_decode :: "string \<Rightarrow> string + bytes"
  bs58_encode :: "bytes \<Rightarrow> string"
  nacl_sign_detached_verify :: "bytes \<Rightarrow> bytes \<Rightarrow> bytes \<Rightarrow> string + bool"
  bitcoinMessage_verify :: "BtcMsg \<Rightarrow> string \<Rightarrow> string \<Rightarrow> string + bool"
  near_PublicKey_from :: "string \<Rightarrow> string + 'pk"
  near_PublicKey_verify :: "'pk \<Rightarrow> bytes \<Rightarrow> bytes \<Rightarrow> string + bool"
  fromBase64 :: "string \<Rightarrow> string + bytes"
  cryptoWaitReady :: "string + bool"
  blake2AsU8a :: "bytes \<Rightarrow> nat \<Rightarrow> bytes"
  signatureVerify :: "bytes \<Rightarrow> bytes \<Rightarrow> string \<Rightarrow> string + bool"
  null_property_error :: string

subsection \<open>String operations of the language\<close>

definition startsWith :: "string \<Rightarrow> string \<Rightarrow> bool" where
  "startsWith x p = (take (length p) x = p)"

text \<open>\<^verbatim>\<open>x.replace(p, '')\<close> for a string pattern: the first occurrence goes.\<close>

fun remove_first :: "string \<Rightarrow> string \<Rightarrow> string" where
  "remove_first p [] = []"
| "remove_first p (c # cs) =
     (if startsWith (c # cs) p then drop (length p) (c # cs) else c # remove_first p cs)"

definition is_hex_char :: "char \<Rightarrow> bool" where
  "is_hex_char c = (c \<in> set ''0123456789abcdefABCDEF'')"

text \<open>The test of \<^verbatim>\<open>/^[0-9a-fA-F]+$/\<close>.\<close>

definition is_hex :: "string \<Rightarrow> bool" where
  "is_hex x = (x \<noteq> [] \<and> list_all is_hex_char x)"

text \<open>The test of \<^verbatim>\<open>/^[0-9a-fA-F]{64}$/\<close>.\<close>

definition is_hex64 :: "string \<Rightarrow> bool" where
  "is_hex64 x = (length x = 64 \<and> list_all is_hex_char x)"

text \<open>Truthiness of an optional string, and \<^verbatim>\<open>x || ''\<close>.\<close>

fun truthy :: "string option \<Rightarrow> bool" where
  "truthy None = False"
| "truthy (Some x) = (x \<noteq> [])"

fun or_empty :: "string option \<Rightarrow> string" where
  "or_empty None = []"
| "or_empty (Some x) = x"

text \<open>A number in a template literal.\<close>

fun digits :: "nat \<Rightarrow> string" where
  "digits n = (if n < 10 then [''0123456789'' ! n]
               else digits (n div 10) @ [''0123456789'' ! (n mod 10)])"

declare digits.simps [simp del]

definition number_text :: "int \<Rightarrow> string" where
  "number_text i = (if i < 0 then CHR ''-'' # digits (nat (- i)) else digits (nat i))"

fun optional_number_text :: "JsNumber \<Rightarrow> string" where
  "optional_number_text NumUndefined = ''undefined''"
| "optional_number_text NumNull = ''null''"
| "optional_number_text (Num i) = number_text i"

subsection \<open>Reading the signing result (lines 478 to 487)\<close>

definition empty_object :: SigObject where
  "empty_object =
     \<lparr>obj_signature = None, obj_r = None, obj_s = None, obj_v = NumUndefined\<rparr>"

text \<open>
  \<^verbatim>\<open>sigObj\<close> and the fields read from it. On a \<^verbatim>\<open>null\<close> signature the read of
  line 482 throws; that case is decided in \<open>verify_body\<close> below, before any of these
  is used.
\<close>

definition sigObj :: "SignResult \<Rightarrow> SigObject" where
  "sigObj res = (case res_signature res of SigObj ob \<Rightarrow> ob | _ \<Rightarrow> empty_object)"

definition sigStr :: "SignResult \<Rightarrow> string" where
  "sigStr res =
     (case res_signature res of
        SigString x \<Rightarrow> x
      | _ \<Rightarrow> or_empty (obj_signature (sigObj res)))"

definition field_r :: "SignResult \<Rightarrow> string option" where
  "field_r res = (if truthy (obj_r (sigObj res)) then obj_r (sigObj res) else res_r res)"

definition field_s :: "SignResult \<Rightarrow> string option" where
  "field_s res = (if truthy (obj_s (sigObj res)) then obj_s (sigObj res) else res_s res)"

text \<open>\<^verbatim>\<open>(sigObj.v as number) ?? signResultData.v\<close>\<close>

definition field_v :: "SignResult \<Rightarrow> JsNumber" where
  "field_v res = (case obj_v (sigObj res) of Num n \<Rightarrow> Num n | _ \<Rightarrow> res_v res)"

text \<open>\<^verbatim>\<open>!signResultData.signature\<close> negated: an object or a non-empty string.\<close>

fun signature_present :: "SigField \<Rightarrow> bool" where
  "signature_present SigUndefined = False"
| "signature_present SigNull = False"
| "signature_present (SigString x) = (x \<noteq> [])"
| "signature_present (SigObj ob) = True"

text \<open>The guard of line 473, negated.\<close>

definition material_present :: "SignResult \<Rightarrow> bool" where
  "material_present res =
     (signature_present (res_signature res) \<or> truthy (res_signedTransaction res))"

subsection \<open>Reconstruction of the signature (lines 492 to 513)\<close>

definition hex_prefixed :: "string \<Rightarrow> string" where
  "hex_prefixed x = (if startsWith x ''0x'' then x else ''0x'' @ x)"

text \<open>\<^verbatim>\<open>v < 27 ? v + 27 : v\<close>\<close>

definition normalize_v :: "int \<Rightarrow> int" where
  "normalize_v n = (if n < 27 then n + 27 else n)"

text \<open>
  \<^verbatim>\<open>v !== undefined ? (v < 27 ? v + 27 : v) : 27\<close>. A \<^verbatim>\<open>null\<close> is not
  \<^verbatim>\<open>undefined\<close>; in the comparison and in the sum it counts as 0, so the result
  is 27.
\<close>

fun vNormalized :: "JsNumber \<Rightarrow> int" where
  "vNormalized NumUndefined = 27"
| "vNormalized NumNull = 27"
| "vNormalized (Num n) = normalize_v n"

text \<open>The signature text of lines 501 to 508.\<close>

definition cleanSig :: "string \<Rightarrow> JsNumber \<Rightarrow> string" where
  "cleanSig x v =
     (if length (hex_prefixed x) = 130 \<and> v \<noteq> NumUndefined
      then hex_prefixed x @ (if vNormalized v = 27 then ''1b'' else ''1c'')
      else hex_prefixed x)"

definition reconstruct_signature ::
  "('sg, 'pk) Lib \<Rightarrow> ChainType \<Rightarrow> SignResult \<Rightarrow> string + 'sg SigVar" where
  "reconstruct_signature lib chain res =
     (if chain = Evm then
        (if truthy (field_r res) \<and> truthy (field_s res) then
           (case Signature_from lib (hex_prefixed (or_empty (field_r res)))
                   (hex_prefixed (or_empty (field_s res))) (vNormalized (field_v res)) of
              Inl e \<Rightarrow> Inl e
            | Inr sg \<Rightarrow> Inr (SigEthers sg))
         else if sigStr res \<noteq> [] then Inr (SigText (cleanSig (sigStr res) (field_v res)))
         else Inr SigUndef)
      else Inr (SigText (remove_first ''0x'' (sigStr res))))"

text \<open>\<^verbatim>\<open>!!signature\<close>\<close>

fun sig_truthy :: "'sg SigVar \<Rightarrow> bool" where
  "sig_truthy SigUndef = False"
| "sig_truthy (SigText x) = (x \<noteq> [])"
| "sig_truthy (SigEthers sg) = True"

text \<open>
  \<^verbatim>\<open>signature as string\<close>: the cast is used on the chains other than EVM only, where
  the variable holds a string; the other two equations are never reached.
\<close>

fun as_string :: "'sg SigVar \<Rightarrow> string" where
  "as_string (SigText x) = x"
| "as_string SigUndef = []"
| "as_string (SigEthers sg) = []"

subsection \<open>Message verification on EVM (lines 519 to 546)\<close>

text \<open>
  What the branches of the function leave behind: the two variables
  \<^verbatim>\<open>isVerified\<close> and \<^verbatim>\<open>verificationMsg\<close>, or the result that the Solana
  branch sets itself before it returns.
\<close>

datatype BodyResult = Completed bool string | Returned VerificationResult

definition same_address :: "('sg, 'pk) Lib \<Rightarrow> string \<Rightarrow> string \<Rightarrow> bool" where
  "same_address lib a b = (toLowerCase lib a = toLowerCase lib b)"

text \<open>
  The loop \<^verbatim>\<open>for (const tryV of [27, 28])\<close>. One round rebuilds the signature
  with \<^verbatim>\<open>tryV\<close> and recovers an address; an exception inside the round is skipped.
  The result of the loop is the \<^verbatim>\<open>tryV\<close> at which it breaks, if it does.
\<close>

definition candidate_matches ::
  "('sg, 'pk) Lib \<Rightarrow> string \<Rightarrow> string \<Rightarrow> string \<Rightarrow> string \<Rightarrow> int \<Rightarrow> bool" where
  "candidate_matches lib msg addr rHex sHex tryV =
     (case Signature_from lib rHex sHex tryV of
        Inl e \<Rightarrow> False
      | Inr trySig \<Rightarrow>
          (case verifyMessage lib msg (SigEthers trySig) of
             Inl e \<Rightarrow> False
           | Inr tryAddr \<Rightarrow> same_address lib tryAddr addr))"

fun try_candidates ::
  "('sg, 'pk) Lib \<Rightarrow> string \<Rightarrow> string \<Rightarrow> string \<Rightarrow> string \<Rightarrow> int list \<Rightarrow> int option" where
  "try_candidates lib msg addr rHex sHex [] = None"
| "try_candidates lib msg addr rHex sHex (tryV # rest) =
     (if candidate_matches lib msg addr rHex sHex tryV then Some tryV
      else try_candidates lib msg addr rHex sHex rest)"

definition verified_with_text :: "int \<Rightarrow> JsNumber \<Rightarrow> string" where
  "verified_with_text tryV v =
     ''Verified with v='' @ number_text tryV @ '' (MPC returned v=''
       @ optional_number_text v @ '')''"

definition mismatch_text :: "string \<Rightarrow> string \<Rightarrow> string" where
  "mismatch_text recovered addr =
     ''Address mismatch '' @ [CHR 0xE2, CHR 0x80, CHR 0x94] @ '' recovered '' @ recovered
       @ '' but wallet is '' @ addr @ ''.''"

definition verify_message_evm ::
  "('sg, 'pk) Lib \<Rightarrow> VerifyInput \<Rightarrow> 'sg SigVar \<Rightarrow> string + BodyResult" where
  "verify_message_evm lib inp sg =
     (let res = in_result inp; addr = wallet_address (in_wallet inp) in
      case verifyMessage lib (in_message inp) sg of
        Inl e \<Rightarrow> Inl e
      | Inr recoveredAddress \<Rightarrow>
          if same_address lib recoveredAddress addr then Inr (Completed True [])
          else if truthy (field_r res) \<and> truthy (field_s res) then
            (case try_candidates lib (in_message inp) addr
                    (hex_prefixed (or_empty (field_r res)))
                    (hex_prefixed (or_empty (field_s res))) [27, 28] of
               Some tryV \<Rightarrow> Inr (Completed True (verified_with_text tryV (field_v res)))
             | None \<Rightarrow> Inr (Completed False (mismatch_text recoveredAddress addr)))
          else Inr (Completed False []))"

subsection \<open>Message verification on Solana (lines 547 to 615)\<close>

definition sol_public_key :: "('sg, 'pk) Lib \<Rightarrow> string \<Rightarrow> string + bytes" where
  "sol_public_key lib pkStr =
     (if startsWith pkStr ''0x''
      then web3_PublicKey_of_buffer lib (Buffer_from_hex lib (drop 2 pkStr))
      else if is_hex64 pkStr then web3_PublicKey_of_buffer lib (Buffer_from_hex lib pkStr)
      else web3_PublicKey_of_string lib pkStr)"

text \<open>
  \<^verbatim>\<open>encodedByHex ? ethers.getBytes(message) : new TextEncoder().encode(message)\<close>
\<close>

definition message_bytes :: "('sg, 'pk) Lib \<Rightarrow> VerifyInput \<Rightarrow> string + bytes" where
  "message_bytes lib inp =
     (if in_encodedByHex inp then getBytes lib (in_message inp)
      else Inr (TextEncoder_encode lib (in_message inp)))"

text \<open>
  \<^verbatim>\<open>x.startsWith('0x') ? x.slice(2) : x\<close>, the local \<^verbatim>\<open>cleanHex\<close> of lines 571
  and 630; then the decoding of the signature text, lines 568 to 586.
\<close>

definition cleanHex :: "string \<Rightarrow> string" where
  "cleanHex x = (if startsWith x ''0x'' then drop 2 x else x)"

definition sol_signature_bytes :: "('sg, 'pk) Lib \<Rightarrow> string \<Rightarrow> string + bytes" where
  "sol_signature_bytes lib x =
     (let isHex = is_hex (cleanHex x)
      in if isHex \<and> length (cleanHex x) = 128 then getBytes lib (hex_prefixed x)
         else (case bs58_decode lib x of
                 Inr b \<Rightarrow> Inr b
               | Inl e \<Rightarrow> if isHex then getBytes lib (hex_prefixed x)
                          else Inl ''Signature is not valid Hex or Base58''))"

definition solana_prefix :: string where
  "solana_prefix = CHR 0x19 # ''Solana Signed Message:'' @ [CHR 0x0A]"

text \<open>The two attempts, lines 588 to 609: \<^verbatim>\<open>isVerified\<close> and \<^verbatim>\<open>verificationMsg\<close>.\<close>

definition sol_attempts ::
  "('sg, 'pk) Lib \<Rightarrow> bytes \<Rightarrow> bytes \<Rightarrow> bytes \<Rightarrow> string + bool \<times> string" where
  "sol_attempts lib msgBytes sigBytes pubKey =
     (case nacl_sign_detached_verify lib msgBytes sigBytes pubKey of
        Inl e \<Rightarrow> Inl e
      | Inr isValid \<Rightarrow>
          if isValid then Inr (True, ''Verified (Schema: Raw Message)'')
          else
            (case getBytes lib
                    (sha256 lib (TextEncoder_encode lib solana_prefix @ msgBytes)) of
               Inl e \<Rightarrow> Inl e
             | Inr solHashBytes \<Rightarrow>
                 (case nacl_sign_detached_verify lib solHashBytes sigBytes pubKey of
                    Inl e \<Rightarrow> Inl e
                  | Inr hashedValid \<Rightarrow>
                      if hashedValid then Inr (True, ''Verified (Schema: Hashed with Prefix)'')
                      else Inr (False, ''Solana signature verification failed''))))"

definition sol_try_block ::
  "('sg, 'pk) Lib \<Rightarrow> bytes \<Rightarrow> string \<Rightarrow> bytes \<Rightarrow> string + bool \<times> string" where
  "sol_try_block lib msgBytes x pubKey =
     (case sol_signature_bytes lib x of
        Inl e \<Rightarrow> Inl e
      | Inr sigBytes \<Rightarrow> sol_attempts lib msgBytes sigBytes pubKey)"

definition verify_message_sol ::
  "('sg, 'pk) Lib \<Rightarrow> VerifyInput \<Rightarrow> string \<Rightarrow> string + BodyResult" where
  "verify_message_sol lib inp x =
     (case sol_public_key lib (or_empty (wallet_publicKey (in_wallet inp))) of
        Inl e \<Rightarrow>
          Inr (Returned \<lparr>status = Failed,
                 explanation = Some (''Invalid Solana Public Key: '' @ e)\<rparr>)
      | Inr pubKey \<Rightarrow>
          (case message_bytes lib inp of
             Inl e \<Rightarrow> Inl e
           | Inr msgBytes \<Rightarrow>
               (case sol_try_block lib msgBytes x pubKey of
                  Inl e \<Rightarrow> Inr (Completed False (''Solana verify error: '' @ e))
                | Inr (ok, txt) \<Rightarrow> Inr (Completed ok txt))))"

subsection \<open>Message verification on Bitcoin, NEAR and Substrate (lines 616 to 672)\<close>

definition btc_try_block :: "('sg, 'pk) Lib \<Rightarrow> VerifyInput \<Rightarrow> string \<Rightarrow> string + bool" where
  "btc_try_block lib inp x =
     (if in_encodedByHex inp then
        (case getBytes lib (in_message inp) of
           Inl e \<Rightarrow> Inl e
         | Inr b \<Rightarrow> bitcoinMessage_verify lib (MsgBuffer b) (wallet_address (in_wallet inp)) x)
      else bitcoinMessage_verify lib (MsgString (in_message inp))
             (wallet_address (in_wallet inp)) x)"

definition verify_message_btc :: "('sg, 'pk) Lib \<Rightarrow> VerifyInput \<Rightarrow> string \<Rightarrow> BodyResult" where
  "verify_message_btc lib inp x =
     (case btc_try_block lib inp x of
        Inl e \<Rightarrow> Completed False (''BTC verify error: '' @ e)
      | Inr ok \<Rightarrow>
          Completed ok (if ok then ''Bitcoin signature verified''
                        else ''Bitcoin signature verification failed''))"

text \<open>The rewriting of the public key text, lines 628 to 637.\<close>

definition near_pubKeyStr :: "('sg, 'pk) Lib \<Rightarrow> string \<Rightarrow> string" where
  "near_pubKeyStr lib pubKeyStr =
     (if pubKeyStr \<noteq> [] then
        (if length (cleanHex pubKeyStr) = 64
         then ''ed25519:'' @ bs58_encode lib (Buffer_from_hex lib (cleanHex pubKeyStr))
         else if CHR '':'' \<notin> set pubKeyStr then ''ed25519:'' @ pubKeyStr
         else pubKeyStr)
      else pubKeyStr)"

text \<open>
  The decoding of the signature text on NEAR and Substrate, lines 645 to 647 and
  660 to 662.
\<close>

definition hex_or_base64 :: "('sg, 'pk) Lib \<Rightarrow> string \<Rightarrow> string + bytes" where
  "hex_or_base64 lib x =
     (if startsWith x ''0x'' \<or> length x = 128 then getBytes lib (hex_prefixed x)
      else fromBase64 lib x)"

definition near_try_block :: "('sg, 'pk) Lib \<Rightarrow> VerifyInput \<Rightarrow> string \<Rightarrow> string + bool" where
  "near_try_block lib inp x =
     (case near_PublicKey_from lib
             (near_pubKeyStr lib (or_empty (wallet_publicKey (in_wallet inp)))) of
        Inl e \<Rightarrow> Inl e
      | Inr pubKey \<Rightarrow>
          (case message_bytes lib inp of
             Inl e \<Rightarrow> Inl e
           | Inr msgBytes \<Rightarrow>
               (case getBytes lib (sha256 lib msgBytes) of
                  Inl e \<Rightarrow> Inl e
                | Inr msgHashBytes \<Rightarrow>
                    (case hex_or_base64 lib x of
                       Inl e \<Rightarrow> Inl e
                     | Inr sigBytes \<Rightarrow> near_PublicKey_verify lib pubKey msgHashBytes sigBytes))))"

definition verify_message_near :: "('sg, 'pk) Lib \<Rightarrow> VerifyInput \<Rightarrow> string \<Rightarrow> BodyResult" where
  "verify_message_near lib inp x =
     (case near_try_block lib inp x of
        Inl e \<Rightarrow> Completed False (''NEAR verify error: '' @ e)
      | Inr ok \<Rightarrow>
          Completed ok (if ok then ''NEAR signature verified''
                        else ''NEAR signature verification failed''))"

definition dot_try_block :: "('sg, 'pk) Lib \<Rightarrow> VerifyInput \<Rightarrow> string \<Rightarrow> string + bool" where
  "dot_try_block lib inp x =
     (case message_bytes lib inp of
        Inl e \<Rightarrow> Inl e
      | Inr msgBytes \<Rightarrow>
          (case hex_or_base64 lib x of
             Inl e \<Rightarrow> Inl e
           | Inr sigBytes \<Rightarrow>
               (case cryptoWaitReady lib of
                  Inl e \<Rightarrow> Inl e
                | Inr ready \<Rightarrow>
                    signatureVerify lib (blake2AsU8a lib msgBytes 256) sigBytes
                      (wallet_address (in_wallet inp)))))"

definition verify_message_dot :: "('sg, 'pk) Lib \<Rightarrow> VerifyInput \<Rightarrow> string \<Rightarrow> BodyResult" where
  "verify_message_dot lib inp x =
     (case dot_try_block lib inp x of
        Inl e \<Rightarrow> Completed False (''Substrate verify error: '' @ e)
      | Inr ok \<Rightarrow>
          Completed ok (if ok then ''Substrate signature verified''
                        else ''Substrate signature verification failed''))"

subsection \<open>The dispatch on sign type and chain (lines 515 to 686)\<close>

text \<open>
  The chain of \<^verbatim>\<open>if (signType === 'message')\<close>: the EVM branch needs a truthy
  signature; with a falsy one no branch of the inner chain is taken and both variables
  keep their initial values.
\<close>

definition verify_message ::
  "('sg, 'pk) Lib \<Rightarrow> VerifyInput \<Rightarrow> 'sg SigVar \<Rightarrow> string + BodyResult" where
  "verify_message lib inp sg =
     (if in_chain inp = Evm \<and> sig_truthy sg then verify_message_evm lib inp sg
      else if in_chain inp = Sol then verify_message_sol lib inp (as_string sg)
      else if in_chain inp = Btc then Inr (verify_message_btc lib inp (as_string sg))
      else if in_chain inp = Near then Inr (verify_message_near lib inp (as_string sg))
      else if in_chain inp = Dot then Inr (verify_message_dot lib inp (as_string sg))
      else if in_chain inp = Cosmos
        then Inr (Completed (sig_truthy sg) ''Cosmos signature presence confirmed'')
      else Inr (Completed False []))"

definition verify_typed_data ::
  "('sg, 'pk) Lib \<Rightarrow> VerifyInput \<Rightarrow> 'sg SigVar \<Rightarrow> string + BodyResult" where
  "verify_typed_data lib inp sg =
     (case verifyTypedData lib (in_typedData inp) sg of
        Inl e \<Rightarrow> Inl e
      | Inr recoveredAddress \<Rightarrow>
          Inr (Completed (same_address lib recoveredAddress (wallet_address (in_wallet inp)))
                 []))"

definition dispatch ::
  "('sg, 'pk) Lib \<Rightarrow> VerifyInput \<Rightarrow> 'sg SigVar \<Rightarrow> string + BodyResult" where
  "dispatch lib inp sg =
     (if in_signType inp = Message then verify_message lib inp sg
      else if in_signType inp = TypedData \<and> in_chain inp = Evm \<and> sig_truthy sg
        then verify_typed_data lib inp sg
      else if in_signType inp = Transaction
        then Inr (Completed (signature_present (res_signature (in_result inp))
                               \<or> truthy (res_signedTransaction (in_result inp)))
                    ''Signature attached to transaction payload'')
      else Inr (Completed (sig_truthy sg) []))"

text \<open>
  The body of the outer \<^verbatim>\<open>try\<close>, lines 478 to 686. For a \<^verbatim>\<open>null\<close> signature
  \<^verbatim>\<open>typeof\<close> gives \<^verbatim>\<open>'object'\<close>, \<^verbatim>\<open>sigObj\<close> is \<^verbatim>\<open>null\<close> and the read of
  \<^verbatim>\<open>sigObj.signature\<close> at line 482 throws.
\<close>

definition verify_body :: "('sg, 'pk) Lib \<Rightarrow> VerifyInput \<Rightarrow> string + BodyResult" where
  "verify_body lib inp =
     (if res_signature (in_result inp) = SigNull then Inl (null_property_error lib)
      else case reconstruct_signature lib (in_chain inp) (in_result inp) of
             Inl e \<Rightarrow> Inl e
           | Inr sg \<Rightarrow> dispatch lib inp sg)"

text \<open>The final \<^verbatim>\<open>setVerificationResult\<close>, lines 688 to 691.\<close>

definition final_result :: "bool \<Rightarrow> string \<Rightarrow> VerificationResult" where
  "final_result isVerified verificationMsg =
     \<lparr>status = (if isVerified then Verified else Failed),
      explanation = Some (if verificationMsg \<noteq> [] then verificationMsg
                          else if isVerified then ''Signature matches selected wallet address''
                          else ''Signature verification failed'')\<rparr>"

text \<open>The outcome of the \<^verbatim>\<open>try\<close> statement with its \<^verbatim>\<open>catch\<close>, lines 477 to 698.\<close>

definition outcome :: "('sg, 'pk) Lib \<Rightarrow> VerifyInput \<Rightarrow> VerificationResult" where
  "outcome lib inp =
     (case verify_body lib inp of
        Inl e \<Rightarrow> \<lparr>status = Failed, explanation = Some (''Verification logic error: '' @ e)\<rparr>
      | Inr (Returned vr) \<Rightarrow> vr
      | Inr (Completed isVerified verificationMsg) \<Rightarrow> final_result isVerified verificationMsg)"

text \<open>
  The function \<^verbatim>\<open>verify\<close>: the results it sets, in order. Without signature
  material it returns at line 473 and sets nothing.
\<close>

definition verify :: "('sg, 'pk) Lib \<Rightarrow> VerifyInput \<Rightarrow> VerificationResult list" where
  "verify lib inp =
     (if \<not> material_present (in_result inp) then []
      else [\<lparr>status = Pending, explanation = None\<rparr>, outcome lib inp])"

section \<open>A sample library and sample inputs\<close>

text \<open>
  A small instance of the library record, for evaluating the definitions on concrete
  inputs. Its decoders check the alphabet of their argument, its verifiers check the
  length of the signature, and its signature check accepts exactly the messages that
  are 32 zero bytes, which is what its hash function returns. Its byte decoders return
  zero bytes of the length that the text encodes.
\<close>

definition lower_char :: "char \<Rightarrow> char" where
  "lower_char c =
     (case map_of (zip ''ABCDEFGHIJKLMNOPQRSTUVWXYZ'' ''abcdefghijklmnopqrstuvwxyz'') c of
        None \<Rightarrow> c
      | Some d \<Rightarrow> d)"

definition sample_recover :: "string \<Rightarrow> int SigVar \<Rightarrow> string + string" where
  "sample_recover m sg =
     (case sg of
        SigEthers n \<Rightarrow> Inr (if n = 28 then ''0xAbC1'' else ''0xDeF2'')
      | SigText x \<Rightarrow> (if length x = 132 then Inr ''0xAbC1''
                      else Inl ''invalid raw signature length'')
      | SigUndef \<Rightarrow> Inl ''invalid signature'')"

definition sample_getBytes :: "string \<Rightarrow> string + bytes" where
  "sample_getBytes x =
     (if startsWith x ''0x'' \<and> even (length x) \<and> list_all is_hex_char (drop 2 x)
      then Inr (replicate ((length x - 2) div 2) 0)
      else Inl ''invalid BytesLike value'')"

definition sample_check :: "bytes \<Rightarrow> bool" where
  "sample_check m = (length m = 32 \<and> list_all (\<lambda>b. b = 0) m)"

definition is_base58 :: "string \<Rightarrow> bool" where
  "is_base58 x =
     list_all (\<lambda>c. c \<in> set ''123456789ABCDEFGHJKLMNPQRSTUVWXYZabcdefghijkmnopqrstuvwxyz'') x"

definition is_base64_char :: "char \<Rightarrow> bool" where
  "is_base64_char c =
     (c \<in> set ''ABCDEFGHIJKLMNOPQRSTUVWXYZabcdefghijklmnopqrstuvwxyz0123456789+/='')"

definition sample_fromBase64 :: "string \<Rightarrow> string + bytes" where
  "sample_fromBase64 x =
     (if \<not> list_all is_base64_char x then Inl ''Invalid base64 string format''
      else if length x mod 4 \<noteq> 0 then Inl ''Invalid string. Length must be a multiple of 4''
      else Inr (replicate (3 * (length x div 4) - length (filter (\<lambda>c. c = CHR ''='') x)) 0))"

definition sample_lib :: "(int, string) Lib" where
  "sample_lib =
     \<lparr>Signature_from = (\<lambda>r s n. if n = 27 \<or> n = 28 then Inr n else Inl ''invalid v''),
      verifyMessage = sample_recover,
      verifyTypedData = sample_recover,
      getBytes = sample_getBytes,
      sha256 = (\<lambda>b. ''0x'' @ replicate 64 (CHR ''0'')),
      toLowerCase = map lower_char,
      TextEncoder_encode = map (\<lambda>c. of_nat (of_char c)),
      Buffer_from_hex = (\<lambda>x. replicate (length x div 2) 0),
      web3_PublicKey_of_buffer =
        (\<lambda>b. if length b = 32 then Inr b else Inl ''Invalid public key input''),
      web3_PublicKey_of_string =
        (\<lambda>x. if is_base58 x \<and> x \<noteq> [] then Inr (replicate 32 1)
             else Inl ''Invalid public key input''),
      bs58_decode =
        (\<lambda>x. if is_base58 x then Inr (replicate (length x) 1)
             else Inl ''Non-base58 character''),
      bs58_encode = (\<lambda>b. replicate (length b) (CHR ''1'')),
      nacl_sign_detached_verify =
        (\<lambda>m sg k. if length sg \<noteq> 64 then Inl ''bad signature size''
                  else if length k \<noteq> 32 then Inl ''bad public key size''
                  else Inr (sample_check m)),
      bitcoinMessage_verify =
        (\<lambda>m a x. if length x \<noteq> 88 then Inl ''Invalid signature length'' else Inr False),
      near_PublicKey_from =
        (\<lambda>x. if startsWith x ''ed25519:'' then Inr x else Inl ''Unknown key type''),
      near_PublicKey_verify =
        (\<lambda>k m sg. if length sg \<noteq> 64 then Inl ''bad signature size''
                  else Inr (sample_check m)),
      fromBase64 = sample_fromBase64,
      cryptoWaitReady = Inr True,
      blake2AsU8a = (\<lambda>b n. replicate (n div 8) 0),
      signatureVerify =
        (\<lambda>m sg a. if length sg < 64 \<or> 66 < length sg then Inl ''Invalid signature length''
                  else Inr (sample_check m)),
      null_property_error = ''Cannot read properties of null (reading 'signature')''\<rparr>"

definition no_result :: SignResult where
  "no_result = \<lparr>res_signature = SigUndefined, res_r = None, res_s = None,
                 res_v = NumUndefined, res_signedTransaction = None\<rparr>"

definition text_result :: "string \<Rightarrow> SignResult" where
  "text_result x = no_result\<lparr>res_signature := SigString x\<rparr>"

definition sample_input :: "ChainType \<Rightarrow> SignType \<Rightarrow> SignResult \<Rightarrow> VerifyInput" where
  "sample_input chain st res =
     \<lparr>in_result = res,
      in_chain = chain,
      in_wallet = \<lparr>wallet_address = ''0xabc1'',
                    wallet_publicKey = Some (''0x'' @ replicate 64 (CHR ''7''))\<rparr>,
      in_signType = st,
      in_message = ''Hello, Planbok!'',
      in_typedData = [],
      in_encodedByHex = False\<rparr>"

text \<open>A signing result with nested \<^verbatim>\<open>r\<close>, \<^verbatim>\<open>s\<close> and \<^verbatim>\<open>v = 0\<close>.\<close>

definition rsv_result :: SignResult where
  "rsv_result =
     no_result\<lparr>res_signature :=
       SigObj \<lparr>obj_signature = None, obj_r = Some ''0x11'', obj_s = Some ''22'',
               obj_v = Num 0\<rparr>\<rparr>"

text \<open>A signature text of 128 hexadecimal digits.\<close>

definition hex128 :: string where
  "hex128 = replicate 128 (CHR ''a'')"


text \<open>
  The sample library with verifiers that accept nothing: recovery throws and every
  signature check returns false.
\<close>

definition rejecting_lib :: "(int, string) Lib" where
  "rejecting_lib =
     sample_lib\<lparr>verifyMessage := (\<lambda>m sg. Inl ''invalid signature''),
                verifyTypedData := (\<lambda>m sg. Inl ''invalid signature''),
                nacl_sign_detached_verify := (\<lambda>m sg k. Inr False),
                bitcoinMessage_verify := (\<lambda>m a x. Inr False),
                near_PublicKey_verify := (\<lambda>k m sg. Inr False),
                signatureVerify := (\<lambda>m sg a. Inr False)\<rparr>"

text \<open>A signature text of 130 hexadecimal digits.\<close>

definition hex130 :: string where
  "hex130 = replicate 130 (CHR ''a'')"


text \<open>A signing result with an empty signature text and a signed transaction.\<close>

definition signed_transaction_only :: SignResult where
  "signed_transaction_only = (text_result [])\<lparr>res_signedTransaction := Some ''AQID''\<rparr>"

text \<open>A signing result with nested \<^verbatim>\<open>r\<close>, \<^verbatim>\<open>s\<close> and \<^verbatim>\<open>v = 3\<close>.\<close>

definition rsv3_result :: SignResult where
  "rsv3_result =
     no_result\<lparr>res_signature :=
       SigObj \<lparr>obj_signature = None, obj_r = Some ''0x11'', obj_s = Some ''22'',
               obj_v = Num 3\<rparr>\<rparr>"

text \<open>A signing result with a \<^verbatim>\<open>null\<close> signature and a signed transaction.\<close>

definition null_with_transaction :: SignResult where
  "null_with_transaction =
     no_result\<lparr>res_signature := SigNull, res_signedTransaction := Some ''AQID''\<rparr>"

text \<open>
  A NEAR request with a genuine signature. The key is an ed25519 public key, the
  signature text is the base64 form of the 64 bytes of the ed25519 signature, under that
  key, of the SHA-256 hash of the UTF-8 bytes of the message \<^verbatim>\<open>Hello, Planbok!\<close>.
  The text holds \<^verbatim>\<open>0x\<close> at its 61st and 62nd character.
\<close>

definition near_signature_text :: string where
  "near_signature_text =
     ''Ohf+FFz38gyJdidNkSbRCm3beezmHB6WszG2mvVlSmsXvJIHVANupWOfCptg0xRpRd1xIzQZI9ihU87u1U03BQ==''"

definition near_request :: VerifyInput where
  "near_request =
     \<lparr>in_result = text_result near_signature_text,
      in_chain = Near,
      in_wallet =
        \<lparr>wallet_address = ''planbok-demo.testnet'',
         wallet_publicKey =
           Some ''3e7ba0f453447ef071d15f7b1c1cf51d851e17d851e3a94bc5b31511f0517a0e''\<rparr>,
      in_signType = Message,
      in_message = ''Hello, Planbok!'',
      in_typedData = [],
      in_encodedByHex = False\<rparr>"

section \<open>Properties of the verification effect\<close>

lemmas sample_defs = sample_lib_def sample_input_def no_result_def text_result_def
  rsv_result_def sample_recover_def sample_getBytes_def sample_check_def is_base58_def
  lower_char_def hex128_def

subsection \<open>The helpers of the embedding in plain terms\<close>

lemma startsWith_iff: "startsWith x p \<longleftrightarrow> (\<exists>rest. x = p @ rest)"
proof
  assume "startsWith x p"
  then have "x = p @ drop (length p) x"
    unfolding startsWith_def by (metis append_take_drop_id)
  then show "\<exists>rest. x = p @ rest" ..
next
  assume "\<exists>rest. x = p @ rest"
  then show "startsWith x p"
    by (auto simp: startsWith_def)
qed



lemma remove_first_occurrence:
  assumes "p \<noteq> []" and "\<And>i. i < length a \<Longrightarrow> \<not> startsWith (drop i (a @ p @ b)) p"
  shows "remove_first p (a @ p @ b) = a @ b"
  using assms(2)
proof (induction a)
  case Nil
  obtain c cs where p: "p = c # cs"
    using assms(1) by (cases p) auto
  then have "startsWith (c # cs @ b) (c # cs)"
    by (simp add: startsWith_def)
  then show ?case
    using p by simp
next
  case (Cons c a)
  have "\<not> startsWith ((c # a) @ p @ b) p"
    using Cons.prems [of 0] by simp
  moreover have "remove_first p (a @ p @ b) = a @ b"
  proof (rule Cons.IH)
    fix i assume "i < length a"
    then show "\<not> startsWith (drop i (a @ p @ b)) p"
      using Cons.prems [of "Suc i"] by simp
  qed
  ultimately show ?case by simp
qed

lemma remove_first_replicate:
  "c \<noteq> d \<Longrightarrow> remove_first (d # p) (replicate n c) = replicate n c"
  by (induction n) (simp_all add: startsWith_def)

text \<open>The guard of line 473 in terms of the fields.\<close>

lemma material_present_iff:
  "material_present res \<longleftrightarrow>
     (\<exists>x. res_signature res = SigString x \<and> x \<noteq> []) \<or>
     (\<exists>ob. res_signature res = SigObj ob) \<or>
     (\<exists>t. res_signedTransaction res = Some t \<and> t \<noteq> [])"
proof -
  have "truthy w \<longleftrightarrow> (\<exists>t. w = Some t \<and> t \<noteq> [])" for w
    by (cases w) auto
  then show ?thesis
    by (cases "res_signature res") (auto simp: material_present_def)
qed

text \<open>The signature text of line 482 in terms of the fields.\<close>

lemma sigStr_cases:
  "sigStr res =
     (case res_signature res of
        SigString x \<Rightarrow> x
      | SigObj ob \<Rightarrow> (case obj_signature ob of Some x \<Rightarrow> x | None \<Rightarrow> [])
      | _ \<Rightarrow> [])"
  by (auto simp: sigStr_def sigObj_def empty_object_def split: SigField.splits option.splits)

subsection \<open>The structure of the function\<close>

lemma verify_present:
  "material_present (in_result inp) \<Longrightarrow>
     verify lib inp = [\<lparr>status = Pending, explanation = None\<rparr>, outcome lib inp]"
  by (simp add: verify_def)

lemma non_evm_signature:
  "chain \<noteq> Evm \<Longrightarrow>
     reconstruct_signature lib chain res = Inr (SigText (remove_first ''0x'' (sigStr res)))"
  by (simp add: reconstruct_signature_def)

lemma verify_body_null:
  "res_signature (in_result inp) = SigNull \<Longrightarrow>
     verify_body lib inp = Inl (null_property_error lib)"
  by (simp add: verify_body_def)

lemma outcome_message_off_evm:
  "in_signType inp = Message \<Longrightarrow> in_chain inp \<noteq> Evm \<Longrightarrow>
   res_signature (in_result inp) \<noteq> SigNull \<Longrightarrow>
     verify_body lib inp =
       verify_message lib inp (SigText (remove_first ''0x'' (sigStr (in_result inp))))"
  by (simp add: verify_body_def dispatch_def non_evm_signature)

lemma sol_returns_failed:
  "verify_message_sol lib inp x = Inr (Returned vr) \<Longrightarrow>
     status vr = Failed \<and> explanation vr \<noteq> None"
  by (auto simp: verify_message_sol_def split: sum.splits prod.splits)

lemma evm_never_returns: "verify_message_evm lib inp sg \<noteq> Inr (Returned vr)"
  by (auto simp: verify_message_evm_def Let_def split: sum.splits option.splits)

lemma typed_data_never_returns: "verify_typed_data lib inp sg \<noteq> Inr (Returned vr)"
  by (auto simp: verify_typed_data_def split: sum.splits)

lemma other_chains_never_return:
  "verify_message_btc lib inp x \<noteq> Returned vr"
  "verify_message_near lib inp x \<noteq> Returned vr"
  "verify_message_dot lib inp x \<noteq> Returned vr"
  by (auto simp: verify_message_btc_def verify_message_near_def verify_message_dot_def
      split: sum.splits)

lemma returned_is_failed:
  assumes "verify_body lib inp = Inr (Returned vr)"
  shows "status vr = Failed \<and> explanation vr \<noteq> None"
proof -
  from assms obtain sg where "dispatch lib inp sg = Inr (Returned vr)"
    by (auto simp: verify_body_def split: sum.splits if_splits)
  then have "verify_message_sol lib inp (as_string sg) = Inr (Returned vr)"
    by (auto simp: dispatch_def verify_message_def evm_never_returns typed_data_never_returns
        other_chains_never_return split: if_splits)
  then show ?thesis
    by (rule sol_returns_failed)
qed

subsection \<open>The sample inputs evaluated\<close>

lemma number_text_27: "number_text 27 = ''27''"
  by (simp add: number_text_def digits.simps)

lemma number_text_28: "number_text 28 = ''28''"
  by (simp add: number_text_def digits.simps)

lemma number_text_0: "number_text 0 = ''0''"
  by (simp add: number_text_def digits.simps)

lemma material_text_result: "material_present (text_result x) \<longleftrightarrow> x \<noteq> []"
  by (simp add: material_present_def text_result_def no_result_def)

lemma sigStr_text_result: "sigStr (text_result x) = x"
  by (simp add: sigStr_def text_result_def no_result_def)

lemma signature_text_result: "res_signature (text_result x) = SigString x"
  by (simp add: text_result_def no_result_def)

lemma sample_input_simps:
  "in_chain (sample_input c t res) = c" "in_signType (sample_input c t res) = t"
  "in_result (sample_input c t res) = res"
  by (simp_all add: sample_input_def)

lemma remove_first_hex128: "remove_first ''0x'' hex128 = hex128"
  by (simp add: hex128_def remove_first_replicate)

lemma is_hex_hex128: "is_hex hex128" "length hex128 = 128" "\<not> startsWith hex128 ''0x''"
  by (simp_all add: is_hex_def hex128_def list_all_iff is_hex_char_def startsWith_def)

lemma sample_signature_hex128:
  "sol_signature_bytes sample_lib hex128 = Inr (replicate 64 0)"
  using is_hex_hex128
  apply (simp add: sol_signature_bytes_def cleanHex_def hex_prefixed_def )
  apply (simp add: sample_lib_def sample_getBytes_def startsWith_def)
  apply (simp add: hex128_def list_all_iff is_hex_char_def)
  done

subsection \<open>The two Solana attempts\<close>

text \<open>
  C2. In a Solana message verification whose signature is not \<^verbatim>\<open>null\<close> and whose
  public key, message bytes and signature bytes decode, the ed25519 check runs first on
  the raw message bytes: if it accepts,
  the outcome is verified as raw message, whatever the hashed variant would give. Only
  when it rejects is the check repeated on the SHA-256 hash of the message bytes
  prefixed with the bytes of \<^verbatim>\<open>\x19Solana Signed Message:\n\<close>: if that accepts, the
  outcome is verified with the explanation \<^verbatim>\<open>Verified (Schema: Hashed with Prefix)\<close>;
  if both reject, the outcome is failed.
\<close>

theorem solana_raw_then_hashed:
  assumes "in_chain inp = Sol" and "in_signType inp = Message"
    and "material_present (in_result inp)"
    and "res_signature (in_result inp) \<noteq> SigNull"
    and "sol_public_key lib (or_empty (wallet_publicKey (in_wallet inp))) = Inr pubKey"
    and "(if in_encodedByHex inp then getBytes lib (in_message inp)
          else Inr (TextEncoder_encode lib (in_message inp))) = Inr msgBytes"
    and "sol_signature_bytes lib (remove_first ''0x'' (sigStr (in_result inp))) = Inr sigBytes"
  shows "(nacl_sign_detached_verify lib msgBytes sigBytes pubKey = Inr True \<longrightarrow>
           verify lib inp =
             [\<lparr>status = Pending, explanation = None\<rparr>,
              \<lparr>status = Verified, explanation = Some ''Verified (Schema: Raw Message)''\<rparr>])
       \<and> (nacl_sign_detached_verify lib msgBytes sigBytes pubKey = Inr False \<and>
          getBytes lib (sha256 lib
             (TextEncoder_encode lib (CHR 0x19 # ''Solana Signed Message:'' @ [CHR 0x0A])
                @ msgBytes)) = Inr hashBytes \<and>
          nacl_sign_detached_verify lib hashBytes sigBytes pubKey = Inr True \<longrightarrow>
           verify lib inp =
             [\<lparr>status = Pending, explanation = None\<rparr>,
              \<lparr>status = Verified,
                explanation = Some ''Verified (Schema: Hashed with Prefix)''\<rparr>])
       \<and> (nacl_sign_detached_verify lib msgBytes sigBytes pubKey = Inr False \<and>
          getBytes lib (sha256 lib
             (TextEncoder_encode lib (CHR 0x19 # ''Solana Signed Message:'' @ [CHR 0x0A])
                @ msgBytes)) = Inr hashBytes \<and>
          nacl_sign_detached_verify lib hashBytes sigBytes pubKey = Inr False \<longrightarrow>
           verify lib inp =
             [\<lparr>status = Pending, explanation = None\<rparr>,
              \<lparr>status = Failed,
                explanation = Some ''Solana signature verification failed''\<rparr>])"
  using assms
  by (simp add: verify_present outcome_def outcome_message_off_evm verify_message_def
      verify_message_sol_def message_bytes_def sol_try_block_def sol_attempts_def
      solana_prefix_def final_result_def)

theorem solana_raw_then_hashed_witness:
  "verify sample_lib (sample_input Sol Message (text_result hex128)) =
     [\<lparr>status = Pending, explanation = None\<rparr>,
      \<lparr>status = Verified, explanation = Some ''Verified (Schema: Hashed with Prefix)''\<rparr>]"
proof -
  let ?inp = "sample_input Sol Message (text_result hex128)"
  let ?msg = "TextEncoder_encode sample_lib ''Hello, Planbok!''"
  have h: "in_chain ?inp = Sol" "in_signType ?inp = Message"
    "material_present (in_result ?inp)" "res_signature (in_result ?inp) \<noteq> SigNull"
    by (simp_all add: sample_input_def text_result_def no_result_def material_present_def
        hex128_def)
  have k: "sol_public_key sample_lib (or_empty (wallet_publicKey (in_wallet ?inp)))
             = Inr (replicate 32 0)"
    by (simp add: sample_input_def sol_public_key_def startsWith_def sample_lib_def)
  have m: "(if in_encodedByHex ?inp then getBytes sample_lib (in_message ?inp)
            else Inr (TextEncoder_encode sample_lib (in_message ?inp))) = Inr ?msg"
    by (simp add: sample_input_def)
  have s: "sol_signature_bytes sample_lib (remove_first ''0x'' (sigStr (in_result ?inp)))
             = Inr (replicate 64 0)"
    by (simp add: sample_input_def text_result_def no_result_def sigStr_def
        remove_first_hex128 sample_signature_hex128)
  have raw: "nacl_sign_detached_verify sample_lib ?msg (replicate 64 0) (replicate 32 0)
               = Inr False"
    by (simp add: sample_lib_def sample_check_def list_all_iff)
  have hash: "getBytes sample_lib (sha256 sample_lib
                (TextEncoder_encode sample_lib
                   (CHR 0x19 # ''Solana Signed Message:'' @ [CHR 0x0A]) @ ?msg))
                = Inr (replicate 32 0)"
    by (simp add: sample_lib_def sample_getBytes_def startsWith_def list_all_iff
        is_hex_char_def)
  have hashed: "nacl_sign_detached_verify sample_lib (replicate 32 0) (replicate 64 0)
                  (replicate 32 0) = Inr True"
    by (simp add: sample_lib_def sample_check_def list_all_iff)
  show ?thesis
    using solana_raw_then_hashed [OF h k m s, of "replicate 32 0"] raw hash hashed
    by simp
qed


subsection \<open>Every call with signature material settles\<close>






subsection \<open>The decoding of a Solana signature\<close>

text \<open>
  C6, as stated, fails: the decoding of the signature text takes no encoding hint, and
  on a text that is neither hexadecimal nor base58 it throws.
\<close>

lemma sample_not_a_signature:
  "\<not> is_hex (cleanHex ''not a signature!'')"
  "bs58_decode sample_lib ''not a signature!'' = Inl ''Non-base58 character''"
  by (simp_all add: is_hex_def cleanHex_def startsWith_def is_hex_char_def sample_lib_def
      is_base58_def)

theorem signature_decoding_counterexample:
  "sol_signature_bytes sample_lib ''not a signature!''
     = Inl ''Signature is not valid Hex or Base58''"
  using sample_not_a_signature by (simp add: sol_signature_bytes_def Let_def)

text \<open>
  C6, amended. The decoding of a Solana signature text probes in this order: the text
  is decoded as hexadecimal when, after an optional leading \<^verbatim>\<open>0x\<close>, it consists of
  exactly 128 hexadecimal digits; otherwise it is decoded as base58 when base58 accepts
  it; otherwise as hexadecimal when it consists of hexadecimal digits only; otherwise
  the decoding throws \<^verbatim>\<open>Signature is not valid Hex or Base58\<close>. There is no base64
  and no UTF-8 attempt and no encoding hint. A throw of the decoding does not leave
  the function: in a Solana message verification (signature not \<^verbatim>\<open>null\<close>, key and
  message obtained) the outcome is failed with the explanation
  \<^verbatim>\<open>Solana verify error: \<close> followed by the message.
\<close>

theorem solana_signature_decoding:
  "(is_hex (cleanHex x) \<and> length (cleanHex x) = 128 \<longrightarrow>
      sol_signature_bytes lib x = getBytes lib (hex_prefixed x))
   \<and> (\<not> (is_hex (cleanHex x) \<and> length (cleanHex x) = 128) \<and> bs58_decode lib x = Inr b \<longrightarrow>
      sol_signature_bytes lib x = Inr b)
   \<and> (length (cleanHex x) \<noteq> 128 \<and> bs58_decode lib x = Inl e \<and> is_hex (cleanHex x) \<longrightarrow>
      sol_signature_bytes lib x = getBytes lib (hex_prefixed x))
   \<and> (bs58_decode lib x = Inl e \<and> \<not> is_hex (cleanHex x) \<longrightarrow>
      sol_signature_bytes lib x = Inl ''Signature is not valid Hex or Base58'')
   \<and> (in_chain inp = Sol \<and> in_signType inp = Message \<and> material_present (in_result inp) \<and>
      res_signature (in_result inp) \<noteq> SigNull \<and>
      sol_public_key lib (or_empty (wallet_publicKey (in_wallet inp))) = Inr pubKey \<and>
      message_bytes lib inp = Inr msgBytes \<and>
      sol_signature_bytes lib (remove_first ''0x'' (sigStr (in_result inp))) = Inl thrown \<longrightarrow>
      verify lib inp =
        [\<lparr>status = Pending, explanation = None\<rparr>,
         \<lparr>status = Failed, explanation = Some (''Solana verify error: '' @ thrown)\<rparr>])"
  by (auto simp: sol_signature_bytes_def Let_def verify_present outcome_def
      outcome_message_off_evm verify_message_def verify_message_sol_def sol_try_block_def
      final_result_def)

theorem solana_signature_decoding_witness:
  "verify sample_lib (sample_input Sol Message (text_result ''not a signature!'')) =
     [\<lparr>status = Pending, explanation = None\<rparr>,
      \<lparr>status = Failed,
        explanation = Some ''Solana verify error: Signature is not valid Hex or Base58''\<rparr>]"
proof -
  let ?inp = "sample_input Sol Message (text_result ''not a signature!'')"
  have r: "remove_first ''0x'' (sigStr (in_result ?inp)) = ''not a signature!''"
    by (simp add: sample_input_simps sigStr_text_result startsWith_def)
  have h: "in_chain ?inp = Sol" "in_signType ?inp = Message"
    "material_present (in_result ?inp)" "res_signature (in_result ?inp) \<noteq> SigNull"
    by (simp_all add: sample_input_simps material_text_result signature_text_result)
  have k: "sol_public_key sample_lib (or_empty (wallet_publicKey (in_wallet ?inp)))
             = Inr (replicate 32 0)"
    by (simp add: sample_input_def sol_public_key_def startsWith_def sample_lib_def)
  have m: "message_bytes sample_lib ?inp
             = Inr (TextEncoder_encode sample_lib ''Hello, Planbok!'')"
    by (simp add: sample_input_def message_bytes_def)
  have t: "sol_signature_bytes sample_lib ''not a signature!''
             = Inl ''Signature is not valid Hex or Base58''"
    using solana_signature_decoding [of "''not a signature!''" sample_lib _
        "''Non-base58 character''"] sample_not_a_signature
    by simp
  show ?thesis
    using solana_signature_decoding [of _ _ _ _ ?inp "replicate 32 0"
        "TextEncoder_encode sample_lib ''Hello, Planbok!''"
        "''Signature is not valid Hex or Base58''", where lib = sample_lib] h k m t r
    by simp
qed

lemma startsWith_0x: "startsWith x ''0x'' \<longleftrightarrow> take 2 x = ''0x''"
  by (simp add: startsWith_def numeral_2_eq_2)

lemma hex_prefixed_plain: "hex_prefixed x = (if take 2 x = ''0x'' then x else ''0x'' @ x)"
  by (simp add: hex_prefixed_def startsWith_0x)

subsection \<open>The recovery id on EVM\<close>

text \<open>
  C1, as stated, fails: with \<open>r\<close>, \<open>s\<close> and \<open>v = 3\<close> the rebuilding of the signature
  at the normalised value 30 throws, so the recovery with the normalised value does not
  yield the wallet address; the candidate 28 would recover it, yet no candidate is
  tried and the outcome is failed.
\<close>

theorem evm_recovery_id_retry_counterexample:
  "Signature_from sample_lib ''0x11'' ''0x22'' (3 + 27) = Inl ''invalid v'' \<and>
   Signature_from sample_lib ''0x11'' ''0x22'' 28 = Inr 28 \<and>
   verifyMessage sample_lib ''Hello, Planbok!'' (SigEthers 28) = Inr ''0xAbC1'' \<and>
   toLowerCase sample_lib ''0xAbC1''
     = toLowerCase sample_lib (wallet_address (in_wallet (sample_input Evm Message rsv3_result))) \<and>
   verify sample_lib (sample_input Evm Message rsv3_result) =
     [\<lparr>status = Pending, explanation = None\<rparr>,
      \<lparr>status = Failed, explanation = Some ''Verification logic error: invalid v''\<rparr>]"
proof -
  have "verify_body sample_lib (sample_input Evm Message rsv3_result) = Inl ''invalid v''"
    by (simp add: verify_body_def sample_input_simps reconstruct_signature_def field_r_def
        field_s_def field_v_def sigObj_def rsv3_result_def no_result_def normalize_v_def
        hex_prefixed_def startsWith_def sample_lib_def)
  then show ?thesis
    by (simp add: verify_def outcome_def sample_input_simps material_present_def
        rsv3_result_def no_result_def)
      (simp add: sample_lib_def sample_recover_def sample_input_def lower_char_def)
qed

text \<open>
  C1, amended. Take an EVM message verification whose signing result passes the guard,
  has a signature other than \<^verbatim>\<open>null\<close> and carries non-empty \<open>r\<close> and \<open>s\<close> (those of
  the signature object when they are non-empty there, those of the top level otherwise).
  The signature is rebuilt from \<open>r\<close> and \<open>s\<close>, each with a leading \<^verbatim>\<open>0x\<close>, and the
  recovery id \<open>v\<close> plus 27 when \<open>v < 27\<close>, \<open>v\<close> itself otherwise, and 27 when \<open>v\<close> is
  absent or \<^verbatim>\<open>null\<close>.
  \<^item> If the rebuilding or the recovery of the address throws, no candidate is tried and
    the outcome is failed with \<^verbatim>\<open>Verification logic error: \<close> and the message.
  \<^item> If the recovered address equals the wallet address in lower case, the outcome is
    verified.
  \<^item> If the recovery returns another address, the candidates 27 and 28 are tried in
    this order, a candidate that throws being skipped: the first whose recovered address
    equals the wallet address in lower case makes the outcome verified, with the
    explanation \<^verbatim>\<open>Verified with v=\<close>, the candidate, \<^verbatim>\<open> (MPC returned v=\<close>, the \<open>v\<close>
    received and \<^verbatim>\<open>)\<close>; 28 is consulted only when 27 does not match; when neither
    matches the outcome is failed with the address mismatch text.
\<close>

theorem evm_recovery_id_retry:
  assumes "in_chain inp = Evm" and "in_signType inp = Message"
    and "material_present (in_result inp)"
    and "res_signature (in_result inp) \<noteq> SigNull"
    and "nested = (case res_signature (in_result inp) of
                     SigObj ob \<Rightarrow> ob
                   | _ \<Rightarrow> \<lparr>obj_signature = None, obj_r = None, obj_s = None,
                           obj_v = NumUndefined\<rparr>)"
    and "(case obj_r nested of
            Some a \<Rightarrow> if a \<noteq> [] then Some a else res_r (in_result inp)
          | None \<Rightarrow> res_r (in_result inp)) = Some r" and "r \<noteq> []"
    and "(case obj_s nested of
            Some a \<Rightarrow> if a \<noteq> [] then Some a else res_s (in_result inp)
          | None \<Rightarrow> res_s (in_result inp)) = Some s" and "s \<noteq> []"
    and "v = (case obj_v nested of Num n \<Rightarrow> Num n | _ \<Rightarrow> res_v (in_result inp))"
    and "vn = (case v of Num n \<Rightarrow> if n < 27 then n + 27 else n | _ \<Rightarrow> 27)"
    and "vtext = (case v of NumUndefined \<Rightarrow> ''undefined'' | NumNull \<Rightarrow> ''null''
                  | Num n \<Rightarrow> number_text n)"
    and "rHex = (if take 2 r = ''0x'' then r else ''0x'' @ r)"
    and "sHex = (if take 2 s = ''0x'' then s else ''0x'' @ s)"
    and "addr = wallet_address (in_wallet inp)"
    and "matches = (\<lambda>tryV. \<exists>trySig tryAddr.
                      Signature_from lib rHex sHex tryV = Inr trySig \<and>
                      verifyMessage lib (in_message inp) (SigEthers trySig) = Inr tryAddr \<and>
                      toLowerCase lib tryAddr = toLowerCase lib addr)"
  shows "(\<forall>e. Signature_from lib rHex sHex vn = Inl e \<longrightarrow>
            verify lib inp =
              [\<lparr>status = Pending, explanation = None\<rparr>,
               \<lparr>status = Failed,
                 explanation = Some (''Verification logic error: '' @ e)\<rparr>])
       \<and> (\<forall>sg e. Signature_from lib rHex sHex vn = Inr sg \<and>
                 verifyMessage lib (in_message inp) (SigEthers sg) = Inl e \<longrightarrow>
            verify lib inp =
              [\<lparr>status = Pending, explanation = None\<rparr>,
               \<lparr>status = Failed,
                 explanation = Some (''Verification logic error: '' @ e)\<rparr>])
       \<and> (\<forall>sg recovered.
             Signature_from lib rHex sHex vn = Inr sg \<and>
             verifyMessage lib (in_message inp) (SigEthers sg) = Inr recovered \<and>
             toLowerCase lib recovered = toLowerCase lib addr \<longrightarrow>
            verify lib inp =
              [\<lparr>status = Pending, explanation = None\<rparr>,
               \<lparr>status = Verified,
                 explanation = Some ''Signature matches selected wallet address''\<rparr>])
       \<and> (\<forall>sg recovered.
             Signature_from lib rHex sHex vn = Inr sg \<and>
             verifyMessage lib (in_message inp) (SigEthers sg) = Inr recovered \<and>
             toLowerCase lib recovered \<noteq> toLowerCase lib addr \<longrightarrow>
            verify lib inp =
              [\<lparr>status = Pending, explanation = None\<rparr>,
               if matches 27
               then \<lparr>status = Verified,
                      explanation =
                        Some (''Verified with v=27 (MPC returned v='' @ vtext @ '')'')\<rparr>
               else if matches 28
               then \<lparr>status = Verified,
                      explanation =
                        Some (''Verified with v=28 (MPC returned v='' @ vtext @ '')'')\<rparr>
               else \<lparr>status = Failed,
                      explanation =
                        Some (''Address mismatch '' @ [CHR 0xE2, CHR 0x80, CHR 0x94]
                              @ '' recovered '' @ recovered @ '' but wallet is '' @ addr
                              @ ''.'')\<rparr>])"
proof -
  have ob: "sigObj (in_result inp) = nested"
    using assms(5) by (simp add: sigObj_def empty_object_def split: SigField.splits)
  have fr: "field_r (in_result inp) = Some r"
    using assms(6,7) by (cases "obj_r nested") (auto simp: field_r_def ob split: if_splits)
  have fs: "field_s (in_result inp) = Some s"
    using assms(8,9) by (cases "obj_s nested") (auto simp: field_s_def ob split: if_splits)
  have fv: "field_v (in_result inp) = v"
    using assms(10) by (simp add: field_v_def ob)
  have vn: "vNormalized v = vn"
    using assms(11) by (cases v) (simp_all add: normalize_v_def)
  have vt: "optional_number_text v = vtext"
    using assms(12) by (cases v) simp_all
  have hx: "hex_prefixed r = rHex" "hex_prefixed s = sHex"
    using assms(13,14) by (simp_all add: hex_prefixed_plain)
  have rec: "reconstruct_signature lib Evm (in_result inp) =
               (case Signature_from lib rHex sHex vn of
                  Inl e \<Rightarrow> Inl e | Inr sg \<Rightarrow> Inr (SigEthers sg))"
    using assms(7,9) by (simp add: reconstruct_signature_def fr fs fv vn hx)
  have cm: "candidate_matches lib (in_message inp) addr rHex sHex tryV = matches tryV"
    for tryV
    unfolding assms(16) candidate_matches_def same_address_def
    by (auto split: sum.splits)
  have body: "verify_body lib inp =
      (case Signature_from lib rHex sHex vn of
         Inl e \<Rightarrow> Inl e
       | Inr sg \<Rightarrow> verify_message_evm lib inp (SigEthers sg))"
    using assms(1,2,4)
    by (simp add: verify_body_def rec dispatch_def verify_message_def split: sum.splits)
  have evm: "verify_message_evm lib inp (SigEthers sg) =
      (case verifyMessage lib (in_message inp) (SigEthers sg) of
         Inl e \<Rightarrow> Inl e
       | Inr recovered \<Rightarrow>
           if toLowerCase lib recovered = toLowerCase lib addr then Inr (Completed True [])
           else if matches 27
             then Inr (Completed True (''Verified with v=27 (MPC returned v='' @ vtext @ '')''))
           else if matches 28
             then Inr (Completed True (''Verified with v=28 (MPC returned v='' @ vtext @ '')''))
           else Inr (Completed False
                  (''Address mismatch '' @ [CHR 0xE2, CHR 0x80, CHR 0x94] @ '' recovered ''
                   @ recovered @ '' but wallet is '' @ addr @ ''.'')))" for sg
    using assms(7,9)
    by (simp add: verify_message_evm_def Let_def assms(15) [symmetric] same_address_def fr fs
        fv hx cm verified_with_text_def vt mismatch_text_def number_text_27 number_text_28
        split: sum.splits)
  show ?thesis
    by (simp add: verify_present [OF assms(3)] outcome_def body evm final_result_def)
qed

theorem evm_recovery_id_retry_witness:
  "verify sample_lib (sample_input Evm Message rsv_result) =
     [\<lparr>status = Pending, explanation = None\<rparr>,
      \<lparr>status = Verified, explanation = Some ''Verified with v=28 (MPC returned v=0)''\<rparr>]"
proof -
  let ?inp = "sample_input Evm Message rsv_result"
  let ?ob = "\<lparr>obj_signature = None, obj_r = Some ''0x11'', obj_s = Some ''22'',
              obj_v = Num 0\<rparr>"
  let ?m = "\<lambda>tryV. \<exists>trySig tryAddr.
              Signature_from sample_lib ''0x11'' ''0x22'' tryV = Inr trySig \<and>
              verifyMessage sample_lib (in_message ?inp) (SigEthers trySig) = Inr tryAddr \<and>
              toLowerCase sample_lib tryAddr = toLowerCase sample_lib ''0xabc1''"
  have h: "in_chain ?inp = Evm" "in_signType ?inp = Message"
    "material_present (in_result ?inp)" "res_signature (in_result ?inp) \<noteq> SigNull"
    "?ob = (case res_signature (in_result ?inp) of
              SigObj ob \<Rightarrow> ob
            | _ \<Rightarrow> \<lparr>obj_signature = None, obj_r = None, obj_s = None,
                    obj_v = NumUndefined\<rparr>)"
    "(case obj_r ?ob of
        Some a \<Rightarrow> if a \<noteq> [] then Some a else res_r (in_result ?inp)
      | None \<Rightarrow> res_r (in_result ?inp)) = Some ''0x11''" "''0x11'' \<noteq> []"
    "(case obj_s ?ob of
        Some a \<Rightarrow> if a \<noteq> [] then Some a else res_s (in_result ?inp)
      | None \<Rightarrow> res_s (in_result ?inp)) = Some ''22''" "''22'' \<noteq> []"
    "Num 0 = (case obj_v ?ob of Num n \<Rightarrow> Num n | _ \<Rightarrow> res_v (in_result ?inp))"
    "27 = (case Num 0 of Num n \<Rightarrow> if n < 27 then n + 27 else n | _ \<Rightarrow> 27)"
    "''0'' = (case Num 0 of NumUndefined \<Rightarrow> ''undefined'' | NumNull \<Rightarrow> ''null''
              | Num n \<Rightarrow> number_text n)"
    "''0x11'' = (if take 2 ''0x11'' = ''0x'' then ''0x11'' else ''0x'' @ ''0x11'')"
    "''0x22'' = (if take 2 ''22'' = ''0x'' then ''22'' else ''0x'' @ ''22'')"
    "''0xabc1'' = wallet_address (in_wallet ?inp)"
    "?m = ?m"
    by (simp_all add: sample_input_def rsv_result_def no_result_def material_present_def
        number_text_0)
  have m: "\<not> ?m 27" "?m 28"
    by (simp_all add: sample_lib_def sample_recover_def sample_input_def lower_char_def)
  have a: "Signature_from sample_lib ''0x11'' ''0x22'' 27 = Inr 27"
    "verifyMessage sample_lib (in_message ?inp) (SigEthers 27) = Inr ''0xDeF2''"
    "toLowerCase sample_lib ''0xDeF2'' \<noteq> toLowerCase sample_lib ''0xabc1''"
    by (simp_all add: sample_lib_def sample_recover_def lower_char_def)
  show ?thesis
    using evm_recovery_id_retry [OF h] a m by simp
qed

subsection \<open>Typed data on a chain other than EVM\<close>

text \<open>
  C3, as stated, fails: with sign type typed data on Bitcoin and the signature text
  \<^verbatim>\<open>abc\<close> the outcome is verified, not failed, and there is no text about an
  unsupported combination.
\<close>

theorem typed_data_off_evm_counterexample:
  "in_signType (sample_input Btc TypedData (text_result ''abc'')) = TypedData \<and>
   in_chain (sample_input Btc TypedData (text_result ''abc'')) \<noteq> Evm \<and>
   verify rejecting_lib (sample_input Btc TypedData (text_result ''abc'')) =
     [\<lparr>status = Pending, explanation = None\<rparr>,
      \<lparr>status = Verified, explanation = Some ''Signature matches selected wallet address''\<rparr>]"
  by (simp add: verify_present material_text_result sample_input_simps outcome_def
      verify_body_def signature_text_result dispatch_def non_evm_signature
      sigStr_text_result startsWith_def final_result_def)

text \<open>
  C3, amended. With sign type typed data and a chain other than EVM no scheme verifier
  of the library is called and no explanation about an unsupported combination is given.
  Without signature material (no signature object, no non-empty signature text, no
  non-empty signed transaction) the call sets nothing. With a \<^verbatim>\<open>null\<close> signature
  beside a signed transaction the outcome is failed with \<^verbatim>\<open>Verification logic error: \<close>
  and the message of the runtime. Otherwise the outcome is verified, with the text
  \<^verbatim>\<open>Signature matches selected wallet address\<close>, when the signature text (the signature
  when it is a string, the field \<^verbatim>\<open>signature\<close> of the signature object otherwise) is
  not empty after its first \<^verbatim>\<open>0x\<close> is removed, and failed with the text
  \<^verbatim>\<open>Signature verification failed\<close> when it is.
\<close>

theorem typed_data_off_evm_presence:
  assumes "in_signType inp = TypedData" and "in_chain inp \<noteq> Evm"
    and "sigText = (case res_signature (in_result inp) of
                      SigString x \<Rightarrow> x
                    | SigObj ob \<Rightarrow> (case obj_signature ob of Some x \<Rightarrow> x | None \<Rightarrow> [])
                    | _ \<Rightarrow> [])"
  shows "verify lib inp =
     (if \<not> material_present (in_result inp) then []
      else [\<lparr>status = Pending, explanation = None\<rparr>,
            if res_signature (in_result inp) = SigNull
            then \<lparr>status = Failed,
                   explanation =
                     Some (''Verification logic error: '' @ null_property_error lib)\<rparr>
            else if remove_first ''0x'' sigText \<noteq> []
            then \<lparr>status = Verified,
                   explanation = Some ''Signature matches selected wallet address''\<rparr>
            else \<lparr>status = Failed, explanation = Some ''Signature verification failed''\<rparr>])"
  using assms
  by (simp add: verify_def outcome_def verify_body_def dispatch_def non_evm_signature
      sigStr_cases final_result_def)

theorem typed_data_off_evm_presence_witness:
  "verify sample_lib (sample_input Sol TypedData (text_result ''0x'')) =
     [\<lparr>status = Pending, explanation = None\<rparr>,
      \<lparr>status = Failed, explanation = Some ''Signature verification failed''\<rparr>]"
proof -
  let ?inp = "sample_input Sol TypedData (text_result ''0x'')"
  have h: "in_signType ?inp = TypedData" "in_chain ?inp \<noteq> Evm"
    "''0x'' = (case res_signature (in_result ?inp) of
                 SigString x \<Rightarrow> x
               | SigObj ob \<Rightarrow> (case obj_signature ob of Some x \<Rightarrow> x | None \<Rightarrow> [])
               | _ \<Rightarrow> [])"
    by (simp_all add: sample_input_simps signature_text_result)
  show ?thesis
    using typed_data_off_evm_presence [OF h, of sample_lib]
    by (simp add: sample_input_simps material_text_result signature_text_result
        startsWith_def)
qed

subsection \<open>Messages on Cosmos\<close>

text \<open>
  C10, as stated, fails: the signature text \<^verbatim>\<open>0x\<close> is not empty, and the outcome is
  failed.
\<close>

theorem cosmos_presence_counterexample:
  "sigStr (in_result (sample_input Cosmos Message (text_result ''0x''))) \<noteq> [] \<and>
   verify sample_lib (sample_input Cosmos Message (text_result ''0x'')) =
     [\<lparr>status = Pending, explanation = None\<rparr>,
      \<lparr>status = Failed, explanation = Some ''Cosmos signature presence confirmed''\<rparr>]"
  by (simp add: verify_present material_text_result sample_input_simps outcome_def
      outcome_message_off_evm signature_text_result verify_message_def
      sigStr_text_result startsWith_def final_result_def)

text \<open>
  C10, amended. In a Cosmos message verification the outcome is verified, with the
  explanation \<^verbatim>\<open>Cosmos signature presence confirmed\<close>, whenever the signature text (the
  signature when it is a string, the field \<^verbatim>\<open>signature\<close> of the signature object
  otherwise) is not empty after its first \<^verbatim>\<open>0x\<close> is removed. No cryptographic check is
  made for Cosmos: two libraries that agree on the message of the runtime for a property
  read on \<^verbatim>\<open>null\<close> give the same results, whatever their verifiers do.
\<close>

theorem cosmos_presence_only:
  fixes lib :: "('sg, 'pk) Lib" and lib' :: "('sg', 'pk') Lib"
  assumes "in_chain inp = Cosmos" and "in_signType inp = Message"
    and "sigText = (case res_signature (in_result inp) of
                      SigString x \<Rightarrow> x
                    | SigObj ob \<Rightarrow> (case obj_signature ob of Some x \<Rightarrow> x | None \<Rightarrow> [])
                    | _ \<Rightarrow> [])"
  shows "(remove_first ''0x'' sigText \<noteq> [] \<longrightarrow>
            verify lib inp =
              [\<lparr>status = Pending, explanation = None\<rparr>,
               \<lparr>status = Verified,
                 explanation = Some ''Cosmos signature presence confirmed''\<rparr>])
       \<and> (null_property_error lib' = null_property_error lib \<longrightarrow>
            verify lib' inp = verify lib inp)"
proof -
  have o: "outcome l inp =
      (if res_signature (in_result inp) = SigNull
       then \<lparr>status = Failed,
              explanation = Some (''Verification logic error: '' @ null_property_error l)\<rparr>
       else final_result (remove_first ''0x'' sigText \<noteq> [])
              ''Cosmos signature presence confirmed'')" for l :: "('x, 'y) Lib"
    using assms
    by (simp add: outcome_def verify_body_def dispatch_def non_evm_signature
        verify_message_def sigStr_cases)
  have p: "remove_first ''0x'' sigText \<noteq> [] \<Longrightarrow>
             material_present (in_result inp) \<and> res_signature (in_result inp) \<noteq> SigNull"
    using assms(3)
    by (auto simp: material_present_iff split: SigField.splits)
  show ?thesis
    using p by (auto simp: verify_def o final_result_def)
qed

theorem cosmos_presence_only_witness:
  "verify sample_lib (sample_input Cosmos Message (text_result ''0xdeadbeef'')) =
     [\<lparr>status = Pending, explanation = None\<rparr>,
      \<lparr>status = Verified, explanation = Some ''Cosmos signature presence confirmed''\<rparr>]"
proof -
  let ?inp = "sample_input Cosmos Message (text_result ''0xdeadbeef'')"
  have h: "in_chain ?inp = Cosmos" "in_signType ?inp = Message"
    "''0xdeadbeef'' = (case res_signature (in_result ?inp) of
                 SigString x \<Rightarrow> x
               | SigObj ob \<Rightarrow> (case obj_signature ob of Some x \<Rightarrow> x | None \<Rightarrow> [])
               | _ \<Rightarrow> [])"
    by (simp_all add: sample_input_simps signature_text_result)
  show ?thesis
    using cosmos_presence_only [OF h, of sample_lib rejecting_lib]
    by (simp add: startsWith_def)
qed

subsection \<open>Transactions and delegate actions\<close>

lemma signed_transaction_only_simps:
  "material_present signed_transaction_only" "sigStr signed_transaction_only = []"
  "res_signature signed_transaction_only = SigString []"
  by (simp_all add: signed_transaction_only_def text_result_def no_result_def
      material_present_def sigStr_def)

text \<open>
  C8, as stated, fails: for a delegate action on NEAR whose signing result holds a
  signed transaction and an empty signature text, the outcome is failed although a
  signed transaction payload is present.
\<close>

theorem presence_check_counterexample:
  "truthy (res_signedTransaction signed_transaction_only) \<and>
   verify sample_lib (sample_input Near DelegateAction signed_transaction_only) =
     [\<lparr>status = Pending, explanation = None\<rparr>,
      \<lparr>status = Failed, explanation = Some ''Signature verification failed''\<rparr>]"
  by (simp add: verify_present signed_transaction_only_simps sample_input_simps outcome_def
      verify_body_def dispatch_def non_evm_signature final_result_def)
    (simp add: signed_transaction_only_def)

text \<open>
  C8, amended. For a transaction and for a delegate action no signature check of any
  library is called; of the library only the rebuilding of an EVM signature from \<open>r\<close>,
  \<open>s\<close> and \<open>v\<close> is used.
  \<^item> Without signature material the call sets nothing.
  \<^item> With a \<^verbatim>\<open>null\<close> signature beside a signed transaction the outcome is failed with
    \<^verbatim>\<open>Verification logic error: \<close> and the message of the runtime.
  \<^item> On EVM with non-empty \<open>r\<close> and \<open>s\<close> the signature is rebuilt: if that throws, the
    outcome is failed with \<^verbatim>\<open>Verification logic error: \<close> and the message; if not, it
    is verified.
  \<^item> Otherwise a transaction is verified, and a delegate action is verified exactly when
    its signature text is present: on EVM when the text is not empty, on the other
    chains when it is not empty after its first \<^verbatim>\<open>0x\<close> is removed. A signed
    transaction alone does not make a delegate action verified.
  A verified transaction carries the explanation
  \<^verbatim>\<open>Signature attached to transaction payload\<close>, a verified delegate action
  \<^verbatim>\<open>Signature matches selected wallet address\<close>, a failed one
  \<^verbatim>\<open>Signature verification failed\<close>.
\<close>

theorem presence_check_only:
  assumes "in_signType inp = Transaction \<or> in_signType inp = DelegateAction"
    and "sigText = (case res_signature (in_result inp) of
                      SigString x \<Rightarrow> x
                    | SigObj ob \<Rightarrow> (case obj_signature ob of Some x \<Rightarrow> x | None \<Rightarrow> [])
                    | _ \<Rightarrow> [])"
    and "nested = (case res_signature (in_result inp) of
                     SigObj ob \<Rightarrow> ob
                   | _ \<Rightarrow> \<lparr>obj_signature = None, obj_r = None, obj_s = None,
                           obj_v = NumUndefined\<rparr>)"
    and "r = (case obj_r nested of
                Some a \<Rightarrow> if a \<noteq> [] then Some a else res_r (in_result inp)
              | None \<Rightarrow> res_r (in_result inp))"
    and "s = (case obj_s nested of
                Some a \<Rightarrow> if a \<noteq> [] then Some a else res_s (in_result inp)
              | None \<Rightarrow> res_s (in_result inp))"
    and "v = (case obj_v nested of Num n \<Rightarrow> Num n | _ \<Rightarrow> res_v (in_result inp))"
    and "vn = (case v of Num n \<Rightarrow> if n < 27 then n + 27 else n | _ \<Rightarrow> 27)"
    and "rHex = (case r of Some a \<Rightarrow> if take 2 a = ''0x'' then a else ''0x'' @ a | None \<Rightarrow> [])"
    and "sHex = (case s of Some a \<Rightarrow> if take 2 a = ''0x'' then a else ''0x'' @ a | None \<Rightarrow> [])"
  shows "verify lib inp =
     (if \<not> material_present (in_result inp) then []
      else [\<lparr>status = Pending, explanation = None\<rparr>,
        if res_signature (in_result inp) = SigNull
        then \<lparr>status = Failed,
               explanation = Some (''Verification logic error: '' @ null_property_error lib)\<rparr>
        else if in_chain inp = Evm \<and> r \<noteq> None \<and> r \<noteq> Some [] \<and> s \<noteq> None \<and> s \<noteq> Some []
        then (case Signature_from lib rHex sHex vn of
                Inl e \<Rightarrow>
                  \<lparr>status = Failed,
                    explanation = Some (''Verification logic error: '' @ e)\<rparr>
              | Inr sg \<Rightarrow>
                  \<lparr>status = Verified,
                    explanation =
                      Some (if in_signType inp = Transaction
                            then ''Signature attached to transaction payload''
                            else ''Signature matches selected wallet address'')\<rparr>)
        else if in_signType inp = Transaction
        then \<lparr>status = Verified,
               explanation = Some ''Signature attached to transaction payload''\<rparr>
        else if (if in_chain inp = Evm then sigText else remove_first ''0x'' sigText) \<noteq> []
        then \<lparr>status = Verified,
               explanation = Some ''Signature matches selected wallet address''\<rparr>
        else \<lparr>status = Failed, explanation = Some ''Signature verification failed''\<rparr>])"
proof (cases "material_present (in_result inp) \<and> res_signature (in_result inp) \<noteq> SigNull")
  case False
  then show ?thesis
    by (auto simp: verify_def outcome_def verify_body_def)
next
  case True
  have ob: "sigObj (in_result inp) = nested"
    using assms(3) by (simp add: sigObj_def empty_object_def split: SigField.splits)
  have fr: "field_r (in_result inp) = r"
    using assms(4) by (cases "obj_r nested") (auto simp: field_r_def ob)
  have fs: "field_s (in_result inp) = s"
    using assms(5) by (cases "obj_s nested") (auto simp: field_s_def ob)
  have "field_v (in_result inp) = v"
    using assms(6) by (simp add: field_v_def ob)
  moreover have "vNormalized v = vn"
    using assms(7) by (cases v) (simp_all add: normalize_v_def)
  ultimately have fv: "vNormalized (field_v (in_result inp)) = vn"
    by simp
  have tr: "truthy w \<longleftrightarrow> w \<noteq> None \<and> w \<noteq> Some []" for w
    by (cases w) auto
  have hx: "truthy r \<Longrightarrow> hex_prefixed (or_empty r) = rHex"
    "truthy s \<Longrightarrow> hex_prefixed (or_empty s) = sHex"
    using assms(8,9) by (cases r; cases s; simp add: hex_prefixed_plain)+
  have st: "sigStr (in_result inp) = sigText"
    using assms(2) by (simp add: sigStr_cases)
  have tx: "signature_present (res_signature (in_result inp))
              \<or> truthy (res_signedTransaction (in_result inp))"
    using True by (simp add: material_present_def)
  have "hex_prefixed x \<noteq> []" for x
    by (cases x) (simp_all add: hex_prefixed_plain)
  then have cs: "cleanSig x w \<noteq> []" for x w
    by (simp add: cleanSig_def)
  show ?thesis
  proof (cases "in_chain inp = Evm")
    case Evm: True
    show ?thesis
    proof (cases "truthy r \<and> truthy s")
      case rs: True
      then have "reconstruct_signature lib Evm (in_result inp) =
                   (case Signature_from lib rHex sHex vn of
                      Inl e \<Rightarrow> Inl e | Inr sg \<Rightarrow> Inr (SigEthers sg))"
        by (simp add: reconstruct_signature_def fr fs fv hx)
      then show ?thesis
        using True Evm rs assms(1) tx
        by (auto simp: verify_def outcome_def verify_body_def dispatch_def final_result_def
            tr split: sum.splits)
    next
      case rs: False
      then have "reconstruct_signature lib Evm (in_result inp) =
                   (if sigText \<noteq> [] then Inr (SigText (cleanSig sigText (field_v (in_result inp))))
                    else Inr SigUndef)"
        by (auto simp: reconstruct_signature_def fr fs st)
      then show ?thesis
        using True Evm rs assms(1) tx
        by (auto simp: verify_def outcome_def verify_body_def dispatch_def final_result_def
            tr cs)
    qed
  next
    case False
    then show ?thesis
      using True assms(1) tx
      by (auto simp: verify_def outcome_def verify_body_def dispatch_def non_evm_signature
          final_result_def st)
  qed
qed

theorem presence_check_only_witness:
  "verify sample_lib (sample_input Sol Transaction signed_transaction_only) =
     [\<lparr>status = Pending, explanation = None\<rparr>,
      \<lparr>status = Verified, explanation = Some ''Signature attached to transaction payload''\<rparr>]"
proof -
  let ?inp = "sample_input Sol Transaction signed_transaction_only"
  let ?ob = "\<lparr>obj_signature = None, obj_r = None, obj_s = None, obj_v = NumUndefined\<rparr>"
  have h: "in_signType ?inp = Transaction \<or> in_signType ?inp = DelegateAction"
    "[] = (case res_signature (in_result ?inp) of
             SigString x \<Rightarrow> x
           | SigObj ob \<Rightarrow> (case obj_signature ob of Some x \<Rightarrow> x | None \<Rightarrow> [])
           | _ \<Rightarrow> [])"
    "?ob = (case res_signature (in_result ?inp) of
              SigObj ob \<Rightarrow> ob
            | _ \<Rightarrow> \<lparr>obj_signature = None, obj_r = None, obj_s = None,
                    obj_v = NumUndefined\<rparr>)"
    "None = (case obj_r ?ob of
               Some a \<Rightarrow> if a \<noteq> [] then Some a else res_r (in_result ?inp)
             | None \<Rightarrow> res_r (in_result ?inp))"
    "None = (case obj_s ?ob of
               Some a \<Rightarrow> if a \<noteq> [] then Some a else res_s (in_result ?inp)
             | None \<Rightarrow> res_s (in_result ?inp))"
    "NumUndefined = (case obj_v ?ob of Num n \<Rightarrow> Num n | _ \<Rightarrow> res_v (in_result ?inp))"
    "27 = (case NumUndefined of Num n \<Rightarrow> if n < 27 then n + 27 else n | _ \<Rightarrow> 27)"
    "[] = (case None of Some a \<Rightarrow> if take 2 a = ''0x'' then a else ''0x'' @ a | None \<Rightarrow> [])"
    "[] = (case None of Some a \<Rightarrow> if take 2 a = ''0x'' then a else ''0x'' @ a | None \<Rightarrow> [])"
    by (simp_all add: sample_input_simps signed_transaction_only_def text_result_def
        no_result_def)
  show ?thesis
    using presence_check_only [OF h, of sample_lib]
    by (simp add: sample_input_simps signed_transaction_only_simps)
qed

subsection \<open>The hashed message on NEAR\<close>

lemma near_signature_text_cut:
  "remove_first ''0x'' near_signature_text =
     ''Ohf+FFz38gyJdidNkSbRCm3beezmHB6WszG2mvVlSmsXvJIHVANupWOfCptgRpRd1xIzQZI9ihU87u1U03BQ==''"
  by (simp add: near_signature_text_def startsWith_def)

lemma near_signature_text_decodes:
  "fromBase64 sample_lib near_signature_text = Inr (replicate 64 0)"
  by (simp add: near_signature_text_def sample_lib_def sample_fromBase64_def
      is_base64_char_def)

text \<open>
  C7 holds of the function as it is meant and fails on the code by a slip. At line 512
  the signature text loses its first \<^verbatim>\<open>0x\<close> wherever that stands, not only a
  leading one, although lines 571, 630 and 645 test for a leading \<^verbatim>\<open>0x\<close>. For
  the request above the text decodes to the 64 bytes of a signature that the key
  accepts on the hash of the message, and the outcome is failed: the decoding is
  given the text without its 61st and 62nd character, which has 86 characters and is
  refused.
\<close>

theorem near_signature_with_inner_0x:
  "fromBase64 sample_lib near_signature_text = Inr (replicate 64 0) \<and>
   getBytes sample_lib
     (sha256 sample_lib (TextEncoder_encode sample_lib (in_message near_request)))
     = Inr (replicate 32 0) \<and>
   near_PublicKey_from sample_lib
     (''ed25519:'' @ bs58_encode sample_lib (Buffer_from_hex sample_lib
        ''3e7ba0f453447ef071d15f7b1c1cf51d851e17d851e3a94bc5b31511f0517a0e''))
     = Inr ''ed25519:11111111111111111111111111111111'' \<and>
   near_PublicKey_verify sample_lib ''ed25519:11111111111111111111111111111111''
     (replicate 32 0) (replicate 64 0) = Inr True \<and>
   verify sample_lib near_request =
     [\<lparr>status = Pending, explanation = None\<rparr>,
      \<lparr>status = Failed,
        explanation =
          Some ''NEAR verify error: Invalid string. Length must be a multiple of 4''\<rparr>]"
proof -
  have h: "getBytes sample_lib
     (sha256 sample_lib (TextEncoder_encode sample_lib (in_message near_request)))
     = Inr (replicate 32 0)"
    by (simp add: sample_lib_def sample_getBytes_def startsWith_def list_all_iff
        is_hex_char_def)
  have k: "near_pubKeyStr sample_lib
             ''3e7ba0f453447ef071d15f7b1c1cf51d851e17d851e3a94bc5b31511f0517a0e''
           = ''ed25519:11111111111111111111111111111111''"
    by (simp add: near_pubKeyStr_def cleanHex_def startsWith_def sample_lib_def)
  have f: "near_PublicKey_from sample_lib ''ed25519:11111111111111111111111111111111''
             = Inr ''ed25519:11111111111111111111111111111111''"
    by (simp add: sample_lib_def startsWith_def)
  have e: "bs58_encode sample_lib (Buffer_from_hex sample_lib
        ''3e7ba0f453447ef071d15f7b1c1cf51d851e17d851e3a94bc5b31511f0517a0e'')
        = ''11111111111111111111111111111111''"
    by (simp add: sample_lib_def)
  have v: "near_PublicKey_verify sample_lib ''ed25519:11111111111111111111111111111111''
     (replicate 32 0) (replicate 64 0) = Inr True"
    by (simp add: sample_lib_def sample_check_def list_all_iff)
  have d: "hex_or_base64 sample_lib (remove_first ''0x'' near_signature_text)
             = Inl ''Invalid string. Length must be a multiple of 4''"
    unfolding near_signature_text_cut
    by (simp add: hex_or_base64_def startsWith_def sample_lib_def sample_fromBase64_def
        is_base64_char_def)
  have m: "message_bytes sample_lib near_request
             = Inr (TextEncoder_encode sample_lib ''Hello, Planbok!'')"
    by (simp add: message_bytes_def near_request_def)
  have t: "near_try_block sample_lib near_request (remove_first ''0x'' near_signature_text)
             = Inl ''Invalid string. Length must be a multiple of 4''"
    using h k f d m
    by (simp add: near_try_block_def near_request_def)
  have "verify sample_lib near_request =
     [\<lparr>status = Pending, explanation = None\<rparr>,
      \<lparr>status = Failed,
        explanation =
          Some ''NEAR verify error: Invalid string. Length must be a multiple of 4''\<rparr>]"
    using t
    by (simp add: verify_def outcome_def verify_body_def dispatch_def non_evm_signature
        verify_message_def verify_message_near_def final_result_def near_request_def
        material_text_result signature_text_result sigStr_text_result)
      (simp add: near_signature_text_def)
  then show ?thesis
    using near_signature_text_decodes h f v e by simp
qed

subsection \<open>Signatures of the wrong length\<close>






lemma hex_or_base64_plain:
  "hex_or_base64 lib x =
     (if take 2 x = ''0x'' \<or> length x = 128
      then getBytes lib (if take 2 x = ''0x'' then x else ''0x'' @ x)
      else fromBase64 lib x)"
  by (simp add: hex_or_base64_def hex_prefixed_plain startsWith_0x)

lemma message_bytes_plain:
  "message_bytes lib inp =
     (if in_encodedByHex inp then getBytes lib (in_message inp)
      else Inr (TextEncoder_encode lib (in_message inp)))"
  by (simp add: message_bytes_def)



subsection \<open>What a verified status rests on\<close>

text \<open>
  C4, as stated, fails: with a library whose verifiers accept nothing, a Cosmos message
  with the signature text \<^verbatim>\<open>abc\<close> is verified.
\<close>

theorem verified_needs_matching_attempt_counterexample:
  "verify rejecting_lib (sample_input Cosmos Message (text_result ''abc'')) =
     [\<lparr>status = Pending, explanation = None\<rparr>,
      \<lparr>status = Verified, explanation = Some ''Cosmos signature presence confirmed''\<rparr>]"
  by (simp add: verify_present material_text_result sample_input_simps outcome_def
      outcome_message_off_evm signature_text_result verify_message_def
      sigStr_text_result startsWith_def final_result_def)

lemma try_candidates_Some:
  "try_candidates lib msg addr rHex sHex cands = Some tryV \<Longrightarrow>
     tryV \<in> set cands \<and> candidate_matches lib msg addr rHex sHex tryV"
  by (induction cands) (auto split: if_splits)

lemma candidate_matches_plain:
  "candidate_matches lib msg addr rHex sHex tryV \<longleftrightarrow>
     (\<exists>trySig tryAddr. Signature_from lib rHex sHex tryV = Inr trySig \<and>
        verifyMessage lib msg (SigEthers trySig) = Inr tryAddr \<and>
        toLowerCase lib tryAddr = toLowerCase lib addr)"
  by (auto simp: candidate_matches_def same_address_def split: sum.splits)

lemma outcome_verified:
  assumes "status (outcome lib inp) = Verified"
  shows "\<exists>expl. verify_body lib inp = Inr (Completed True expl)"
proof (cases "verify_body lib inp")
  case (Inl e)
  with assms show ?thesis by (simp add: outcome_def)
next
  case (Inr b)
  show ?thesis
  proof (cases b)
    case (Completed ok expl)
    with Inr assms show ?thesis
      by (simp add: outcome_def final_result_def split: if_splits)
  next
    case (Returned vr)
    with Inr assms returned_is_failed [of lib inp vr] show ?thesis
      by (simp add: outcome_def)
  qed
qed

lemma sol_public_key_plain:
  "sol_public_key lib pk =
     (if take 2 pk = ''0x''
      then web3_PublicKey_of_buffer lib (Buffer_from_hex lib (drop 2 pk))
      else if length pk = 64 \<and> (\<forall>c\<in>set pk. c \<in> set ''0123456789abcdefABCDEF'')
      then web3_PublicKey_of_buffer lib (Buffer_from_hex lib pk)
      else web3_PublicKey_of_string lib pk)"
  by (simp add: sol_public_key_def startsWith_0x is_hex64_def list_all_iff is_hex_char_def)

lemma near_pubKeyStr_plain:
  "near_pubKeyStr lib pk =
     (if pk = [] then []
      else if length (if take 2 pk = ''0x'' then drop 2 pk else pk) = 64
      then ''ed25519:'' @ bs58_encode lib
             (Buffer_from_hex lib (if take 2 pk = ''0x'' then drop 2 pk else pk))
      else if CHR '':'' \<notin> set pk then ''ed25519:'' @ pk
      else pk)"
  by (simp add: near_pubKeyStr_def cleanHex_def startsWith_0x)

lemma is_hex_plain:
  "is_hex y \<longleftrightarrow> y \<noteq> [] \<and> (\<forall>c\<in>set y. c \<in> set ''0123456789abcdefABCDEF'')"
  by (auto simp: is_hex_def list_all_iff is_hex_char_def)

lemma sol_signature_bytes_plain:
  "sol_signature_bytes lib x =
     (if (if take 2 x = ''0x'' then drop 2 x else x) \<noteq> [] \<and>
         (\<forall>c\<in>set (if take 2 x = ''0x'' then drop 2 x else x).
            c \<in> set ''0123456789abcdefABCDEF'') \<and>
         length (if take 2 x = ''0x'' then drop 2 x else x) = 128
      then getBytes lib (if take 2 x = ''0x'' then x else ''0x'' @ x)
      else (case bs58_decode lib x of
              Inr b \<Rightarrow> Inr b
            | Inl e \<Rightarrow>
                if (if take 2 x = ''0x'' then drop 2 x else x) \<noteq> [] \<and>
                   (\<forall>c\<in>set (if take 2 x = ''0x'' then drop 2 x else x).
                      c \<in> set ''0123456789abcdefABCDEF'')
                then getBytes lib (if take 2 x = ''0x'' then x else ''0x'' @ x)
                else Inl ''Signature is not valid Hex or Base58''))"
  unfolding sol_signature_bytes_def Let_def cleanHex_def startsWith_0x hex_prefixed_plain
    is_hex_plain conj_assoc
  by (rule refl)

lemma or_empty_plain: "or_empty w = (case w of Some k \<Rightarrow> k | None \<Rightarrow> [])"
  by (cases w) simp_all

text \<open>
  C4, amended. For a message verification on EVM, Solana, Bitcoin, NEAR or Substrate and
  for a typed data verification on EVM, a result with status verified is set only if a
  scheme attempt on the request matched the identity of the wallet:
  \<^item> on EVM, the signature rebuilt from the request (from \<open>r\<close>, \<open>s\<close> and the normalised
    \<open>v\<close>, or the signature text), or for a message one of the candidates 27 and 28 after
    a recovery that returned another address, recovers from the message (from the typed
    data) an address that equals the wallet address in lower case;
  \<^item> on Solana, the ed25519 check of the signature bytes decoded from the request, under
    the key built from the wallet's public key, returns true on the message bytes or,
    after it returned false on them, on the hash of the prefixed message bytes;
  \<^item> on Bitcoin, the check of the message and the signature text against the wallet
    address returns true;
  \<^item> on NEAR, the check of the signature bytes decoded from the request, under the key
    built from the wallet's public key, returns true on the SHA-256 hash of the message
    bytes;
  \<^item> on Substrate, the check of the signature bytes decoded from the request against
    the wallet address returns true on the blake2b-256 hash of the message bytes.
\<close>

theorem verified_needs_matching_attempt:
  assumes "in_signType inp = Message \<and> in_chain inp \<noteq> Cosmos \<or>
           in_signType inp = TypedData \<and> in_chain inp = Evm"
    and "out \<in> set (verify lib inp)" and "status out = Verified"
    and "sigText = (case res_signature (in_result inp) of
                      SigString t \<Rightarrow> t
                    | SigObj ob \<Rightarrow> (case obj_signature ob of Some t \<Rightarrow> t | None \<Rightarrow> [])
                    | _ \<Rightarrow> [])"
    and "x = remove_first ''0x'' sigText"
    and "msgResult = (if in_encodedByHex inp then getBytes lib (in_message inp)
                      else Inr (TextEncoder_encode lib (in_message inp)))"
    and "decoded = (if take 2 x = ''0x'' \<or> length x = 128
                    then getBytes lib (if take 2 x = ''0x'' then x else ''0x'' @ x)
                    else fromBase64 lib x)"
    and "nested = (case res_signature (in_result inp) of
                     SigObj ob \<Rightarrow> ob
                   | _ \<Rightarrow> \<lparr>obj_signature = None, obj_r = None, obj_s = None,
                           obj_v = NumUndefined\<rparr>)"
    and "r = (case obj_r nested of
                Some a \<Rightarrow> if a \<noteq> [] then Some a else res_r (in_result inp)
              | None \<Rightarrow> res_r (in_result inp))"
    and "s = (case obj_s nested of
                Some a \<Rightarrow> if a \<noteq> [] then Some a else res_s (in_result inp)
              | None \<Rightarrow> res_s (in_result inp))"
    and "rs \<longleftrightarrow> r \<noteq> None \<and> r \<noteq> Some [] \<and> s \<noteq> None \<and> s \<noteq> Some []"
    and "v = (case obj_v nested of Num n \<Rightarrow> Num n | _ \<Rightarrow> res_v (in_result inp))"
    and "vn = (case v of Num n \<Rightarrow> if n < 27 then n + 27 else n | _ \<Rightarrow> 27)"
    and "rHex = (case r of Some a \<Rightarrow> if take 2 a = ''0x'' then a else ''0x'' @ a | None \<Rightarrow> [])"
    and "sHex = (case s of Some a \<Rightarrow> if take 2 a = ''0x'' then a else ''0x'' @ a | None \<Rightarrow> [])"
    and "evmText =
           (if length (if take 2 sigText = ''0x'' then sigText else ''0x'' @ sigText) = 130
               \<and> v \<noteq> NumUndefined
            then (if take 2 sigText = ''0x'' then sigText else ''0x'' @ sigText)
                   @ (if vn = 27 then ''1b'' else ''1c'')
            else (if take 2 sigText = ''0x'' then sigText else ''0x'' @ sigText))"
    and "addr = wallet_address (in_wallet inp)"
    and "pk = (case wallet_publicKey (in_wallet inp) of Some k \<Rightarrow> k | None \<Rightarrow> [])"
    and "solKey =
           (if take 2 pk = ''0x''
            then web3_PublicKey_of_buffer lib (Buffer_from_hex lib (drop 2 pk))
            else if length pk = 64 \<and> (\<forall>c\<in>set pk. c \<in> set ''0123456789abcdefABCDEF'')
            then web3_PublicKey_of_buffer lib (Buffer_from_hex lib pk)
            else web3_PublicKey_of_string lib pk)"
    and "solDecoded =
           (if (if take 2 x = ''0x'' then drop 2 x else x) \<noteq> [] \<and>
               (\<forall>c\<in>set (if take 2 x = ''0x'' then drop 2 x else x).
                  c \<in> set ''0123456789abcdefABCDEF'') \<and>
               length (if take 2 x = ''0x'' then drop 2 x else x) = 128
            then getBytes lib (if take 2 x = ''0x'' then x else ''0x'' @ x)
            else (case bs58_decode lib x of
                    Inr b \<Rightarrow> Inr b
                  | Inl e \<Rightarrow>
                      if (if take 2 x = ''0x'' then drop 2 x else x) \<noteq> [] \<and>
                         (\<forall>c\<in>set (if take 2 x = ''0x'' then drop 2 x else x).
                            c \<in> set ''0123456789abcdefABCDEF'')
                      then getBytes lib (if take 2 x = ''0x'' then x else ''0x'' @ x)
                      else Inl ''Signature is not valid Hex or Base58''))"
    and "nearKeyText =
           (if pk = [] then []
            else if length (if take 2 pk = ''0x'' then drop 2 pk else pk) = 64
            then ''ed25519:'' @ bs58_encode lib
                   (Buffer_from_hex lib (if take 2 pk = ''0x'' then drop 2 pk else pk))
            else if CHR '':'' \<notin> set pk then ''ed25519:'' @ pk
            else pk)"
  shows "case in_chain inp of
       Evm \<Rightarrow>
         \<exists>sg a.
           (rs \<and> (\<exists>rebuilt. Signature_from lib rHex sHex vn = Inr rebuilt \<and>
                             sg = SigEthers rebuilt)
            \<or> \<not> rs \<and> sigText \<noteq> [] \<and> sg = SigText evmText) \<and>
           toLowerCase lib a = toLowerCase lib addr \<and>
           (if in_signType inp = Message
            then verifyMessage lib (in_message inp) sg = Inr a \<or>
                 rs \<and>
                 (\<exists>recovered. verifyMessage lib (in_message inp) sg = Inr recovered \<and>
                    toLowerCase lib recovered \<noteq> toLowerCase lib addr) \<and>
                 (\<exists>tryV trySig. (tryV = 27 \<or> tryV = 28) \<and>
                    Signature_from lib rHex sHex tryV = Inr trySig \<and>
                    verifyMessage lib (in_message inp) (SigEthers trySig) = Inr a)
            else verifyTypedData lib (in_typedData inp) sg = Inr a)
     | Sol \<Rightarrow>
         \<exists>pubKey msgBytes sigBytes.
           solKey = Inr pubKey \<and> msgResult = Inr msgBytes \<and>
           solDecoded = Inr sigBytes \<and>
           (nacl_sign_detached_verify lib msgBytes sigBytes pubKey = Inr True \<or>
            nacl_sign_detached_verify lib msgBytes sigBytes pubKey = Inr False \<and>
            (\<exists>hashBytes.
               getBytes lib (sha256 lib
                 (TextEncoder_encode lib (CHR 0x19 # ''Solana Signed Message:'' @ [CHR 0x0A])
                    @ msgBytes)) = Inr hashBytes \<and>
               nacl_sign_detached_verify lib hashBytes sigBytes pubKey = Inr True))
     | Btc \<Rightarrow>
         \<exists>m. (if in_encodedByHex inp
               then \<exists>b. getBytes lib (in_message inp) = Inr b \<and> m = MsgBuffer b
               else m = MsgString (in_message inp)) \<and>
             bitcoinMessage_verify lib m addr x = Inr True
     | Near \<Rightarrow>
         \<exists>pubKey msgBytes hashBytes sigBytes.
           near_PublicKey_from lib nearKeyText = Inr pubKey \<and> msgResult = Inr msgBytes \<and>
           getBytes lib (sha256 lib msgBytes) = Inr hashBytes \<and>
           decoded = Inr sigBytes \<and>
           near_PublicKey_verify lib pubKey hashBytes sigBytes = Inr True
     | Dot \<Rightarrow>
         \<exists>msgBytes sigBytes ready.
           msgResult = Inr msgBytes \<and> decoded = Inr sigBytes \<and>
           cryptoWaitReady lib = Inr ready \<and>
           signatureVerify lib (blake2AsU8a lib msgBytes 256) sigBytes addr = Inr True
     | Cosmos \<Rightarrow> False"
proof -
  have present: "material_present (in_result inp)" and ver: "status (outcome lib inp) = Verified"
    using assms(2,3) by (auto simp: verify_def split: if_splits)
  from outcome_verified [OF ver] obtain expl where
    body: "verify_body lib inp = Inr (Completed True expl)"
    by blast
  then have nn: "res_signature (in_result inp) \<noteq> SigNull"
    by (auto simp: verify_body_def split: if_splits)
  have st: "sigStr (in_result inp) = sigText"
    using assms(4) by (simp add: sigStr_cases)
  have mb: "message_bytes lib inp = msgResult"
    using assms(6) by (simp add: message_bytes_plain)
  have dc: "hex_or_base64 lib x = decoded"
    using assms(7) by (simp add: hex_or_base64_plain)
  have off: "in_signType inp = Message \<Longrightarrow> in_chain inp \<noteq> Evm \<Longrightarrow>
               verify_message lib inp (SigText x) = Inr (Completed True expl)"
    using outcome_message_off_evm [OF _ _ nn, of lib] body st assms(5) by simp
  show ?thesis
  proof (cases "in_chain inp")
    case Evm
    have ob: "sigObj (in_result inp) = nested"
      using assms(8) by (simp add: sigObj_def empty_object_def split: SigField.splits)
    have fr: "field_r (in_result inp) = r"
      using assms(9) by (cases "obj_r nested") (auto simp: field_r_def ob)
    have fs: "field_s (in_result inp) = s"
      using assms(10) by (cases "obj_s nested") (auto simp: field_s_def ob)
    have fv: "field_v (in_result inp) = v"
      using assms(12) by (simp add: field_v_def ob)
    have tr: "truthy r \<and> truthy s \<longleftrightarrow> rs"
      unfolding assms(11) by (cases r; cases s) auto
    have vn: "vNormalized v = vn"
      using assms(13) by (cases v) (simp_all add: normalize_v_def)
    have hx: "rs \<Longrightarrow> hex_prefixed (or_empty r) = rHex \<and> hex_prefixed (or_empty s) = sHex"
      using assms(11,14,15) by (cases r; cases s) (auto simp: hex_prefixed_plain)
    have cs: "cleanSig sigText v = evmText"
      unfolding assms(16) by (simp add: cleanSig_def hex_prefixed_plain vn)
    have rec: "reconstruct_signature lib Evm (in_result inp) =
        (if rs then (case Signature_from lib rHex sHex vn of
                       Inl e \<Rightarrow> Inl e | Inr rebuilt \<Rightarrow> Inr (SigEthers rebuilt))
         else if sigText \<noteq> [] then Inr (SigText evmText) else Inr SigUndef)"
      using hx by (auto simp: reconstruct_signature_def fr fs fv tr vn st cs)
    from body nn Evm obtain sg where
      sg: "reconstruct_signature lib Evm (in_result inp) = Inr sg"
      and d: "dispatch lib inp sg = Inr (Completed True expl)"
      by (auto simp: verify_body_def split: sum.splits)
    have origin: "rs \<and> (\<exists>rebuilt. Signature_from lib rHex sHex vn = Inr rebuilt \<and>
                                   sg = SigEthers rebuilt)
                  \<or> \<not> rs \<and> sigText \<noteq> [] \<and> sg = SigText evmText \<or> sg = SigUndef"
      using sg unfolding rec by (auto split: if_splits sum.splits)
    from assms(1) show ?thesis
    proof
      assume "in_signType inp = Message \<and> in_chain inp \<noteq> Cosmos"
      then have m: "in_signType inp = Message" by simp
      from d m Evm have t: "sig_truthy sg"
        and e: "verify_message_evm lib inp sg = Inr (Completed True expl)"
        by (auto simp: dispatch_def verify_message_def split: if_splits)
      from e obtain recovered where
        rcv: "verifyMessage lib (in_message inp) sg = Inr recovered"
        by (auto simp: verify_message_evm_def Let_def split: sum.splits)
      have o: "rs \<and> (\<exists>rebuilt. Signature_from lib rHex sHex vn = Inr rebuilt \<and>
                                sg = SigEthers rebuilt)
               \<or> \<not> rs \<and> sigText \<noteq> [] \<and> sg = SigText evmText"
        using origin t by auto
      show ?thesis
      proof (cases "toLowerCase lib recovered = toLowerCase lib addr")
        case True
        with o rcv show ?thesis
          using Evm m by auto
      next
        case False
        with e rcv obtain tryV where
          rs': "rs" and
          tc: "try_candidates lib (in_message inp) addr rHex sHex [27, 28] = Some tryV"
          using hx
          by (auto simp: verify_message_evm_def Let_def same_address_def fr fs tr
              assms(17) [symmetric] split: if_splits option.splits)
        from try_candidates_Some [OF tc] obtain trySig a where
          "tryV = 27 \<or> tryV = 28"
          "Signature_from lib rHex sHex tryV = Inr trySig"
          "verifyMessage lib (in_message inp) (SigEthers trySig) = Inr a"
          "toLowerCase lib a = toLowerCase lib addr"
          by (auto simp: candidate_matches_plain)
        with o rcv False rs' show ?thesis
          using Evm m by auto
      qed
    next
      assume t: "in_signType inp = TypedData \<and> in_chain inp = Evm"
      with d have tt: "sig_truthy sg"
        and e: "verify_typed_data lib inp sg = Inr (Completed True expl)"
        by (auto simp: dispatch_def split: if_splits)
      have o: "rs \<and> (\<exists>rebuilt. Signature_from lib rHex sHex vn = Inr rebuilt \<and>
                                sg = SigEthers rebuilt)
               \<or> \<not> rs \<and> sigText \<noteq> [] \<and> sg = SigText evmText"
        using origin tt by auto
      from e obtain a where "verifyTypedData lib (in_typedData inp) sg = Inr a"
        "toLowerCase lib a = toLowerCase lib addr"
        by (auto simp: verify_typed_data_def same_address_def assms(17) split: sum.splits)
      with o show ?thesis
        using Evm t by auto
    qed
  next
    case Sol
    with assms(1) have m: "in_signType inp = Message" by auto
    have k: "sol_public_key lib (or_empty (wallet_publicKey (in_wallet inp))) = solKey"
      unfolding assms(19) assms(18) by (simp add: sol_public_key_plain or_empty_plain)
    have sd: "sol_signature_bytes lib x = solDecoded"
      unfolding assms(20) by (rule sol_signature_bytes_plain)
    from off [OF m] Sol have
      "verify_message_sol lib inp x = Inr (Completed True expl)"
      by (simp add: verify_message_def)
    then show ?thesis
      using Sol
      by (auto simp: verify_message_sol_def k mb sd sol_try_block_def sol_attempts_def
          solana_prefix_def split: sum.splits prod.splits if_splits bool.splits)
  next
    case Btc
    with assms(1) have m: "in_signType inp = Message" by auto
    from off [OF m] Btc have
      "verify_message_btc lib inp x = Completed True expl"
      by (simp add: verify_message_def)
    then show ?thesis
      using Btc
      by (auto simp: verify_message_btc_def btc_try_block_def assms(17)
          split: sum.splits if_splits)
  next
    case Near
    with assms(1) have m: "in_signType inp = Message" by auto
    have k: "near_pubKeyStr lib (or_empty (wallet_publicKey (in_wallet inp))) = nearKeyText"
      unfolding assms(21) assms(18) by (simp add: near_pubKeyStr_plain or_empty_plain)
    from off [OF m] Near have
      "verify_message_near lib inp x = Completed True expl"
      by (simp add: verify_message_def)
    then show ?thesis
      using Near
      by (auto simp: verify_message_near_def near_try_block_def k mb dc
          split: sum.splits if_splits)
  next
    case Dot
    with assms(1) have m: "in_signType inp = Message" by auto
    from off [OF m] Dot have
      "verify_message_dot lib inp x = Completed True expl"
      by (simp add: verify_message_def)
    then show ?thesis
      using Dot
      by (auto simp: verify_message_dot_def dot_try_block_def mb dc assms(17)
          split: sum.splits if_splits)
  next
    case Cosmos
    with assms(1) show ?thesis by simp
  qed
qed

lemma hex130_facts: "take 2 hex130 \<noteq> ''0x''" "length hex130 = 130" "hex130 \<noteq> []"
  by (simp_all add: hex130_def numeral_2_eq_2)

lemma sample_evm_text_verified:
  "verify sample_lib (sample_input Evm Message (text_result hex130)) =
     [\<lparr>status = Pending, explanation = None\<rparr>,
      \<lparr>status = Verified, explanation = Some ''Signature matches selected wallet address''\<rparr>]"
proof -
  let ?inp = "sample_input Evm Message (text_result hex130)"
  have c: "cleanSig hex130 NumUndefined = ''0x'' @ hex130"
    by (simp add: cleanSig_def hex_prefixed_plain hex130_facts)
  have r: "reconstruct_signature sample_lib Evm (text_result hex130)
             = Inr (SigText (''0x'' @ hex130))"
    by (simp add: reconstruct_signature_def sigStr_text_result
        field_r_def field_s_def field_v_def sigObj_def signature_text_result
        empty_object_def text_result_def no_result_def sigStr_def c hex130_facts)
  have e: "verify_message_evm sample_lib ?inp (SigText (''0x'' @ hex130))
             = Inr (Completed True [])"
    by (simp add: verify_message_evm_def sample_lib_def sample_recover_def hex130_facts
        sample_input_def same_address_def lower_char_def)
  show ?thesis
    using e
    by (simp add: verify_present material_text_result hex130_facts sample_input_simps
        outcome_def verify_body_def signature_text_result r dispatch_def
        verify_message_def final_result_def)
qed

theorem verified_needs_matching_attempt_witness:
  "\<lparr>status = Verified, explanation = Some ''Signature matches selected wallet address''\<rparr>
     \<in> set (verify sample_lib (sample_input Evm Message (text_result hex130))) \<and>
   (\<exists>a. verifyMessage sample_lib ''Hello, Planbok!'' (SigText (''0x'' @ hex130)) = Inr a \<and>
        toLowerCase sample_lib a = toLowerCase sample_lib ''0xabc1'')"
proof -
  let ?inp = "sample_input Evm Message (text_result hex130)"
  let ?out = "\<lparr>status = Verified, explanation = Some ''Signature matches selected wallet address''\<rparr>"
  have h: "in_signType ?inp = Message \<and> in_chain ?inp \<noteq> Cosmos \<or>
           in_signType ?inp = TypedData \<and> in_chain ?inp = Evm"
    "?out \<in> set (verify sample_lib ?inp)" "status ?out = Verified"
    by (simp_all add: sample_input_simps sample_evm_text_verified)
  note t = verified_needs_matching_attempt [OF h refl refl refl refl refl refl refl refl
      refl refl refl refl refl refl refl refl refl refl]
  from t have "\<exists>a. verifyMessage sample_lib ''Hello, Planbok!'' (SigText (''0x'' @ hex130))
                  = Inr a \<and>
               toLowerCase sample_lib a = toLowerCase sample_lib ''0xabc1''"
    by (auto simp: sample_input_def text_result_def no_result_def hex130_facts)
  with h(2) show ?thesis
    by simp
qed

end
